theory Spec2Isabelle
  imports Main
begin

section \<open>Joint verifiable secret sharing (package poly, joint.go)\<close>

text \<open>
  The development embeds \<^verbatim>\<open>poly/joint.go\<close>: the types \<^verbatim>\<open>PolyInfo\<close>,
  \<^verbatim>\<open>SharedSecret\<close>, \<^verbatim>\<open>Dealer\<close>, \<^verbatim>\<open>Receiver\<close> and the methods
  \<^verbatim>\<open>Dealer.Init\<close>, \<^verbatim>\<open>Dealer.AddResponse\<close>, \<^verbatim>\<open>Dealer.Certified\<close>,
  \<^verbatim>\<open>Receiver.Init\<close>, \<^verbatim>\<open>Receiver.AddDealer\<close> and
  \<^verbatim>\<open>Receiver.ProduceSharedSecret\<close>.

  Go's \<^verbatim>\<open>int\<close> is modelled by \<^typ>\<open>int\<close>: the indices and thresholds are only
  compared, and the one counter of the file (\<^verbatim>\<open>goodShare\<close>) is bounded by the
  length of a slice, so no operation can wrap around.

  The file calls \<^verbatim>\<open>PubPoly\<close>, \<^verbatim>\<open>Promise\<close>, \<^verbatim>\<open>State\<close> and
  \<^verbatim>\<open>Response\<close> of the same package and the group suite; their code is not part of
  the sources at hand. Each of them is modelled from the design document and marked so.
\<close>

subsection \<open>Errors\<close>

text \<open>
  Go reports the errors of \<^verbatim>\<open>joint.go\<close> as formatted strings
  (\<^verbatim>\<open>errors.New(fmt.Sprintf(...))\<close>). Each place that makes an error is one
  constructor, carrying the values the message formats:
  \<^item> \<open>IndexMismatch index r.index\<close>: line 128, "Wrong index received for receiver";
  \<^item> \<open>NoDealers\<close>: line 140, "Receiver has 0 Dealers in its data";
  \<^item> \<open>RevealFailure r.index index e\<close>: line 159, "Receiver %d could not reveal its share
    from Dealer %d promise : %v";
  \<^item> \<open>InsufficientShares\<close>: line 170, "Not enough shares received by the Receiver";
  \<^item> \<open>ConsistencyFailure\<close>: line 174, "Receiver's secret share of the shared secret
    could not be checked against the shared polynomial".

  The remaining constructors are the error kinds that the design document gives to the
  code outside \<^verbatim>\<open>joint.go\<close> (validation failure, duplicate response, index out of
  range, certification shortfall), and \<open>MismatchedPolynomials\<close>, the failure of
  \<^verbatim>\<open>PubPoly.Add\<close> on polynomials of different degrees. \<^verbatim>\<open>Add\<close> has no error
  result in \<^verbatim>\<open>joint.go\<close> (its value is discarded at line 164), so its failure ends
  the calling function; the model returns it as the outcome of the caller.
\<close>

datatype error =
    IndexMismatch int int
  | NoDealers
  | RevealFailure int int error
  | InsufficientShares
  | ConsistencyFailure
  | ValidationFailure
  | DuplicateResponse
  | OutOfRangeIndex
  | CertificationShortfall
  | MismatchedPolynomials

subsection \<open>The group suite and key pairs\<close>

text \<open>
  Modelled from the spec: the GroupSuite collaborator (\<^verbatim>\<open>abstract.Suite\<close>), which is
  missing from the sources. The design document describes it as a capability set: scalar
  and point types with addition, scalar multiplication and a base point. An interface
  value is a record of its operations; no algebraic law is assumed of them.
  \<open>SecretZero\<close> is the fresh scalar that \<^verbatim>\<open>Suite.Secret()\<close> returns,
  \<open>PointBase\<close> is \<^verbatim>\<open>Suite.Point().Base()\<close>.
\<close>

record ('s, 'p) Suite =
  SecretZero :: 's
  SecretAdd :: "'s \<Rightarrow> 's \<Rightarrow> 's"
  SecretMul :: "'s \<Rightarrow> 's \<Rightarrow> 's"
  SecretSetInt64 :: "int \<Rightarrow> 's"
  PointNull :: 'p
  PointBase :: 'p
  PointAdd :: "'p \<Rightarrow> 'p \<Rightarrow> 'p"
  PointMul :: "'p \<Rightarrow> 's \<Rightarrow> 'p"

text \<open>
  Modelled from the spec: the keypair collaborator (\<^verbatim>\<open>config.KeyPair\<close>), missing from
  the sources; the design document gives it as \<^verbatim>\<open>{PublicKey: point, PrivateKey: scalar}\<close>.
\<close>

record ('s, 'p) KeyPair =
  PublicKey :: 'p
  PrivateKey :: 's

subsection \<open>PubPoly\<close>

text \<open>
  Modelled from the spec: the type \<^verbatim>\<open>PubPoly\<close> and its methods \<^verbatim>\<open>InitNull\<close>,
  \<^verbatim>\<open>Add\<close> and \<^verbatim>\<open>Check\<close>, missing from the sources. A PubPoly is a sequence of
  committed coefficients (group elements) relative to a base point.
  \<^item> \<^verbatim>\<open>InitNull(suite, t, basePoint)\<close>: a polynomial of degree \<open>t - 1\<close> (so \<open>t\<close>
    coefficients) whose committed coefficients are all the group identity.
  \<^item> \<^verbatim>\<open>Add(a, b)\<close>: the coefficient-wise group addition of the two; fails if the
    degrees mismatch (\<open>None\<close>).
  \<^item> \<^verbatim>\<open>Check(index, share)\<close>: evaluates the committed polynomial at \<open>index\<close> and
    verifies that it equals the group's representation of \<open>share\<close>, the base point
    multiplied by the share; a mismatch is the value \<open>False\<close>, not an error.
\<close>

record ('s, 'p) PubPoly =
  group :: "('s, 'p) Suite"
  basePoint :: 'p
  coeffs :: "'p list"

definition InitNull :: "('s, 'p) Suite \<Rightarrow> int \<Rightarrow> 'p \<Rightarrow> ('s, 'p) PubPoly" where
  "InitNull suite t b =
     \<lparr>group = suite, basePoint = b, coeffs = replicate (nat t) (PointNull suite)\<rparr>"

definition PubPoly_Add :: "('s, 'p) PubPoly \<Rightarrow> ('s, 'p) PubPoly \<Rightarrow> ('s, 'p) PubPoly option" where
  "PubPoly_Add a c =
     (if length (coeffs a) \<noteq> length (coeffs c) then None
      else Some (a\<lparr>coeffs := map2 (PointAdd (group a)) (coeffs a) (coeffs c)\<rparr>))"

definition PubPoly_Eval :: "('s, 'p) PubPoly \<Rightarrow> int \<Rightarrow> 'p" where
  "PubPoly_Eval pub i =
     foldr (\<lambda>c acc. PointAdd (group pub) c (PointMul (group pub) acc (SecretSetInt64 (group pub) i)))
       (coeffs pub) (PointNull (group pub))"

definition Check :: "('s, 'p) PubPoly \<Rightarrow> int \<Rightarrow> 's \<Rightarrow> bool" where
  "Check pub i share \<longleftrightarrow> PubPoly_Eval pub i = PointMul (group pub) (basePoint pub) share"

subsection \<open>Promise, Response and State\<close>

text \<open>
  Modelled from the spec: the type \<^verbatim>\<open>Promise\<close> with \<^verbatim>\<open>ConstructPromise\<close>,
  \<^verbatim>\<open>ProduceResponse\<close> and \<^verbatim>\<open>PubPoly\<close>, the type \<^verbatim>\<open>Response\<close>, and the type
  \<^verbatim>\<open>State\<close> with \<^verbatim>\<open>Init\<close>, \<^verbatim>\<open>AddResponse\<close>, \<^verbatim>\<open>PromiseCertified\<close> and
  \<^verbatim>\<open>RevealShare\<close>, all missing from the sources.

  A Promise contains the dealer's PubPoly commitment and, for each receiver index in
  \<open>[0, N)\<close>, an individually protected share of the dealer's secret polynomial evaluated
  at that index. The protection is modelled symbolically: a protected share is the pair
  of the intended receiver's public key and the share, and only a key pair with that
  public key recovers it. The Promise also keeps the certification threshold \<open>R\<close> it
  was constructed with.

  A Response does not carry the secret, only a proof that the receiver validated its
  share: the group's representation of the share, which \<^verbatim>\<open>Check\<close> compared with the
  commitment.

  The random polynomial that \<^verbatim>\<open>ConstructPromise\<close> picks is an explicit argument
  (\<open>coins\<close>, the coefficients after the constant term), and so is the suite.

  The operations, in the words of the design document:
  \<^item> \<^verbatim>\<open>ConstructPromise\<close>: a polynomial of degree \<open>T - 1\<close> whose constant term is the
    dealer's secret, committed as a PubPoly; for every receiver public key, that
    receiver's point-evaluation share, individually protected.
  \<^item> \<^verbatim>\<open>ProduceResponse(index, key)\<close>: recovers the share from the Promise and verifies
    it against the PubPoly with \<^verbatim>\<open>Check\<close>; on success returns a Response, otherwise
    fails with a validation error. An index with no share, or a key that recovers none,
    is a share that does not check out.
  \<^item> \<^verbatim>\<open>State.Init(promise)\<close>: starts with zero accepted responses.
  \<^item> \<^verbatim>\<open>State.AddResponse(index, response)\<close>: records the response; fails if the index
    is out of range, if a response already exists for that index, or if the response's
    proof does not match the Promise's commitment for that index.
  \<^item> \<^verbatim>\<open>State.PromiseCertified()\<close>: succeeds once the count of accepted responses is
    at least \<open>R\<close>, otherwise returns an error describing the shortfall.
  \<^item> \<^verbatim>\<open>State.RevealShare(index, key)\<close>: returns the share for \<open>index\<close>; fails if the
    dealer is not certified or the index has no share.
\<close>

record ('s, 'p) Promise =
  pubPoly :: "('s, 'p) PubPoly"
  secrets :: "('p \<times> 's) list"
  certT :: int
  certR :: int

record 'p Response =
  validated :: 'p

definition PriPoly_Eval :: "('s, 'p) Suite \<Rightarrow> 's list \<Rightarrow> int \<Rightarrow> 's" where
  "PriPoly_Eval suite cs i =
     foldr (\<lambda>c acc. SecretAdd suite c (SecretMul suite acc (SecretSetInt64 suite i)))
       cs (SecretZero suite)"

definition ConstructPromise ::
  "('s, 'p) Suite \<Rightarrow> (nat \<Rightarrow> 's) \<Rightarrow> ('s, 'p) KeyPair \<Rightarrow> ('s, 'p) KeyPair \<Rightarrow> int \<Rightarrow> int \<Rightarrow> 'p list
     \<Rightarrow> ('s, 'p) Promise" where
  "ConstructPromise suite coins secretKeyPair dealerKeyPair t r receiverPublicKeys =
     (let cs = take (nat t) (PrivateKey secretKeyPair # map coins [0 ..< nat t - 1])
      in \<lparr>pubPoly = \<lparr>group = suite, basePoint = PointBase suite,
                      coeffs = map (PointMul suite (PointBase suite)) cs\<rparr>,
          secrets = map (\<lambda>(i, pk). (pk, PriPoly_Eval suite cs (int i)))
                      (enumerate 0 receiverPublicKeys),
          certT = t, certR = r\<rparr>)"

definition recoverShare :: "('s, 'p) Promise \<Rightarrow> int \<Rightarrow> ('s, 'p) KeyPair \<Rightarrow> 's option" where
  "recoverShare promise i key =
     (if 0 \<le> i \<and> i < int (length (secrets promise))
      then (case secrets promise ! nat i of
              (pk, s) \<Rightarrow> if pk = PublicKey key then Some s else None)
      else None)"

definition ProduceResponse ::
  "('s, 'p) Promise \<Rightarrow> int \<Rightarrow> ('s, 'p) KeyPair \<Rightarrow> 'p Response option \<times> error option" where
  "ProduceResponse promise i key =
     (case recoverShare promise i key of
        None \<Rightarrow> (None, Some ValidationFailure)
      | Some s \<Rightarrow>
          if Check (pubPoly promise) i s
          then (Some \<lparr>validated = PointMul (group (pubPoly promise)) (basePoint (pubPoly promise)) s\<rparr>,
                None)
          else (None, Some ValidationFailure))"

record ('s, 'p) State =
  sPromise :: "('s, 'p) Promise"
  responses :: "'p Response option list"

definition State_Init :: "('s, 'p) Promise \<Rightarrow> ('s, 'p) State" where
  "State_Init promise =
     \<lparr>sPromise = promise, responses = replicate (length (secrets promise)) None\<rparr>"

definition verifyResponse :: "('s, 'p) Promise \<Rightarrow> int \<Rightarrow> 'p Response \<Rightarrow> bool" where
  "verifyResponse promise i response \<longleftrightarrow> validated response = PubPoly_Eval (pubPoly promise) i"

definition State_AddResponse ::
  "('s, 'p) State \<Rightarrow> int \<Rightarrow> 'p Response \<Rightarrow> ('s, 'p) State \<times> error option" where
  "State_AddResponse st i response =
     (if i < 0 \<or> int (length (responses st)) \<le> i then (st, Some OutOfRangeIndex)
      else if responses st ! nat i \<noteq> None then (st, Some DuplicateResponse)
      else if \<not> verifyResponse (sPromise st) i response then (st, Some ValidationFailure)
      else (st\<lparr>responses := (responses st)[nat i := Some response]\<rparr>, None))"

definition acceptedResponses :: "('s, 'p) State \<Rightarrow> int" where
  "acceptedResponses st = int (length (filter (\<lambda>x. x \<noteq> None) (responses st)))"

definition PromiseCertified :: "('s, 'p) State \<Rightarrow> error option" where
  "PromiseCertified st =
     (if certR (sPromise st) \<le> acceptedResponses st then None else Some CertificationShortfall)"

definition RevealShare :: "('s, 'p) State \<Rightarrow> int \<Rightarrow> ('s, 'p) KeyPair \<Rightarrow> error + 's" where
  "RevealShare st i key =
     (case PromiseCertified st of
        Some e \<Rightarrow> Inl e
      | None \<Rightarrow> (case recoverShare (sPromise st) i key of
                   None \<Rightarrow> Inl OutOfRangeIndex
                 | Some s \<Rightarrow> Inr s))"

subsection \<open>The types of joint.go\<close>

text \<open>
  \<^verbatim>\<open>PolyInfo\<close> (lines 16-25), \<^verbatim>\<open>SharedSecret\<close> (lines 29-40), \<^verbatim>\<open>Dealer\<close>
  (lines 43-53) and \<^verbatim>\<open>Receiver\<close> (lines 58-79), field by field.

  \<^verbatim>\<open>SharedSecret.Pub\<close> and \<^verbatim>\<open>SharedSecret.Share\<close> are pointers that
  \<^verbatim>\<open>ProduceSharedSecret\<close> always sets to fresh values, so the record holds the values.
  A \<^verbatim>\<open>Receiver\<close> holds pointers to its dealers and only reads through them: the list
  \<open>Dealers\<close> holds the dealers as they are when the modelled call runs. The field
  \<^verbatim>\<open>Receiver.Secret\<close> is neither read nor written by any function of the file and is
  left out.
\<close>

record ('s, 'p) PolyInfo =
  Suite :: "('s, 'p) Suite"
  T :: int
  R :: int
  N :: int

record ('s, 'p) SharedSecret =
  Pub :: "('s, 'p) PubPoly"
  Share :: 's
  Index :: int

record ('s, 'p) Dealer =
  info :: "('s, 'p) PolyInfo"
  Promise :: "('s, 'p) Promise"
  State :: "('s, 'p) State"

record ('s, 'p) Receiver =
  info :: "('s, 'p) PolyInfo"
  index :: int
  Key :: "('s, 'p) KeyPair"
  Dealers :: "('s, 'p) Dealer list"

subsection \<open>Dealer\<close>

text \<open>
  \<^verbatim>\<open>Dealer.Init\<close> (lines 88-93) and \<^verbatim>\<open>NewDealer\<close> (lines 82-84). The random
  coefficients that \<^verbatim>\<open>ConstructPromise\<close> draws are the extra argument \<open>coins\<close>.
\<close>

definition Dealer_Init ::
  "(nat \<Rightarrow> 's) \<Rightarrow> ('s, 'p) PolyInfo \<Rightarrow> ('s, 'p) KeyPair \<Rightarrow> ('s, 'p) KeyPair \<Rightarrow> 'p list
     \<Rightarrow> ('s, 'p) Dealer" where
  "Dealer_Init coins info' secret promiser receiverList =
     (let promise = ConstructPromise (Suite info') coins secret promiser (T info') (R info') receiverList
      in \<lparr>Dealer.info = info', Promise = promise, State = State_Init promise\<rparr>)"

definition NewDealer ::
  "(nat \<Rightarrow> 's) \<Rightarrow> ('s, 'p) PolyInfo \<Rightarrow> ('s, 'p) KeyPair \<Rightarrow> ('s, 'p) KeyPair \<Rightarrow> 'p list
     \<Rightarrow> ('s, 'p) Dealer" where
  "NewDealer coins info' secret promiser receiverList =
     Dealer_Init coins info' secret promiser receiverList"

text \<open>
  \<^verbatim>\<open>Dealer.AddResponse\<close> (lines 96-98) returns the error of
  \<^verbatim>\<open>State.AddResponse\<close>; the dealer's state is updated in place.
\<close>

definition Dealer_AddResponse ::
  "('s, 'p) Dealer \<Rightarrow> int \<Rightarrow> 'p Response \<Rightarrow> ('s, 'p) Dealer \<times> error option" where
  "Dealer_AddResponse d i response =
     (case State_AddResponse (State d) i response of
        (st, err) \<Rightarrow> (d\<lparr>State := st\<rparr>, err))"

text \<open>\<^verbatim>\<open>Dealer.Certified\<close> (lines 101-103).\<close>

definition Certified :: "('s, 'p) Dealer \<Rightarrow> error option" where
  "Certified d = PromiseCertified (State d)"

subsection \<open>Receiver\<close>

text \<open>\<^verbatim>\<open>Receiver.Init\<close> (lines 112-118) and \<^verbatim>\<open>NewReceiver\<close> (lines 105-107).\<close>

definition Receiver_Init :: "('s, 'p) PolyInfo \<Rightarrow> ('s, 'p) KeyPair \<Rightarrow> ('s, 'p) Receiver" where
  "Receiver_Init info' key = \<lparr>Receiver.info = info', index = - 1, Key = key, Dealers = []\<rparr>"

definition NewReceiver :: "('s, 'p) PolyInfo \<Rightarrow> ('s, 'p) KeyPair \<Rightarrow> ('s, 'p) Receiver" where
  "NewReceiver info' key = Receiver_Init info' key"

text \<open>
  \<^verbatim>\<open>Receiver.AddDealer\<close> (lines 123-134). The result is the receiver after the call
  and the pair \<^verbatim>\<open>(*Response, error)\<close> that Go returns, \<open>None\<close> for \<^verbatim>\<open>nil\<close>.
\<close>

definition AddDealer ::
  "('s, 'p) Receiver \<Rightarrow> int \<Rightarrow> ('s, 'p) Dealer
     \<Rightarrow> ('s, 'p) Receiver \<times> 'p Response option \<times> error option" where
  "AddDealer r i dealer =
     (let r1 = (if index r = - 1 then r\<lparr>index := i\<rparr> else r)
      in if index r1 \<noteq> i then (r1, None, Some (IndexMismatch i (index r1)))
         else (case ProduceResponse (Promise dealer) i (Key r1) of
                 (resp, err) \<Rightarrow> (r1\<lparr>Dealers := Dealers r1 @ [dealer]\<rparr>, resp, err)))"

text \<open>
  The loop of \<^verbatim>\<open>ProduceSharedSecret\<close> (lines 147-167) over the dealers that remain,
  with the loop variable \<^verbatim>\<open>index\<close> as \<open>pos\<close> and the three variables the loop
  updates: \<^verbatim>\<open>share\<close>, \<^verbatim>\<open>pub\<close> and \<^verbatim>\<open>goodShare\<close>. \<open>Inr\<close> is the state at the
  end of the loop (by \<^verbatim>\<open>break\<close> or by exhausting the slice), \<open>Inl\<close> the early
  return of line 159 or the failure of \<^verbatim>\<open>pub.Add\<close>.
\<close>

fun scanDealers ::
  "('s, 'p) Receiver \<Rightarrow> ('s, 'p) Dealer list \<Rightarrow> int \<Rightarrow> 's \<Rightarrow> ('s, 'p) PubPoly \<Rightarrow> int
     \<Rightarrow> error + ('s \<times> ('s, 'p) PubPoly \<times> int)" where
  "scanDealers r [] pos share pub goodShare = Inr (share, pub, goodShare)"
| "scanDealers r (d # ds) pos share pub goodShare =
     (if T (Receiver.info r) \<le> goodShare then Inr (share, pub, goodShare)
      else (case RevealShare (State d) (index r) (Key r) of
              Inl e \<Rightarrow> Inl (RevealFailure (index r) pos e)
            | Inr s \<Rightarrow>
                (case PubPoly_Add pub (pubPoly (Promise d)) of
                   None \<Rightarrow> Inl MismatchedPolynomials
                 | Some pub' \<Rightarrow>
                     scanDealers r ds (pos + 1)
                       (SecretAdd (Suite (Receiver.info r)) share s) pub' (goodShare + 1))))"

text \<open>\<^verbatim>\<open>Receiver.ProduceSharedSecret\<close> (lines 138-182).\<close>

definition ProduceSharedSecret :: "('s, 'p) Receiver \<Rightarrow> error + ('s, 'p) SharedSecret" where
  "ProduceSharedSecret r =
     (if length (Dealers r) < 1 then Inl NoDealers
      else (case scanDealers r (Dealers r) 0
                   (SecretZero (Suite (Receiver.info r)))
                   (InitNull (Suite (Receiver.info r)) (T (Receiver.info r))
                      (PointBase (Suite (Receiver.info r))))
                   0 of
              Inl e \<Rightarrow> Inl e
            | Inr (share, pub, goodShare) \<Rightarrow>
                if goodShare < T (Receiver.info r) then Inl InsufficientShares
                else if \<not> Check pub (index r) share then Inl ConsistencyFailure
                else Inr \<lparr>Pub = pub, Share = share, Index = index r\<rparr>))"

subsection \<open>The aggregates, as the design document words them\<close>

text \<open>
  The design document describes the result of \<^verbatim>\<open>ProduceSharedSecret\<close> without the
  loop: the share is the sum of the revealed shares of the first \<open>T\<close> dealers whose
  \<^verbatim>\<open>RevealShare\<close> succeeds, in the order in which they were added, and the public
  polynomial is the sum of the PubPolys of the same dealers, starting from the null
  polynomial. These definitions follow that wording; the theorems below compare them with
  the loop.
\<close>

definition revealsGood :: "('s, 'p) Receiver \<Rightarrow> ('s, 'p) Dealer \<Rightarrow> bool" where
  "revealsGood r d =
     (case RevealShare (State d) (index r) (Key r) of Inl e \<Rightarrow> False | Inr s \<Rightarrow> True)"

definition revealed :: "('s, 'p) Receiver \<Rightarrow> ('s, 'p) Dealer \<Rightarrow> 's" where
  "revealed r d =
     (case RevealShare (State d) (index r) (Key r) of
        Inl e \<Rightarrow> SecretZero (Suite (Receiver.info r))
      | Inr s \<Rightarrow> s)"

definition firstGoodDealers :: "('s, 'p) Receiver \<Rightarrow> ('s, 'p) Dealer list" where
  "firstGoodDealers r =
     take (nat (T (Receiver.info r))) (filter (revealsGood r) (Dealers r))"

definition sumShares :: "('s, 'p) Receiver \<Rightarrow> 's \<Rightarrow> ('s, 'p) Dealer list \<Rightarrow> 's" where
  "sumShares r start ds =
     foldl (SecretAdd (Suite (Receiver.info r))) start (map (revealed r) ds)"

fun sumPubPolys :: "('s, 'p) PubPoly \<Rightarrow> ('s, 'p) Dealer list \<Rightarrow> ('s, 'p) PubPoly option" where
  "sumPubPolys pub [] = Some pub"
| "sumPubPolys pub (d # ds) =
     (case PubPoly_Add pub (pubPoly (Promise d)) of
        None \<Rightarrow> None
      | Some pub' \<Rightarrow> sumPubPolys pub' ds)"

definition nullShare :: "('s, 'p) Receiver \<Rightarrow> 's" where
  "nullShare r = SecretZero (Suite (Receiver.info r))"

definition nullPubPoly :: "('s, 'p) Receiver \<Rightarrow> ('s, 'p) PubPoly" where
  "nullPubPoly r =
     InitNull (Suite (Receiver.info r)) (T (Receiver.info r)) (PointBase (Suite (Receiver.info r)))"

text \<open>
  A dealer whose PubPoly has the degree that the receiver's \<open>T\<close> asks for, so that
  \<^verbatim>\<open>pub.Add\<close> accepts it.
\<close>

definition fitsDegree :: "('s, 'p) Receiver \<Rightarrow> ('s, 'p) Dealer \<Rightarrow> bool" where
  "fitsDegree r d \<longleftrightarrow> length (coeffs (pubPoly (Promise d))) = nat (T (Receiver.info r))"

text \<open>Sequences of calls on one receiver and on one dealer, results dropped.\<close>

fun AddDealers ::
  "('s, 'p) Receiver \<Rightarrow> (int \<times> ('s, 'p) Dealer) list \<Rightarrow> ('s, 'p) Receiver" where
  "AddDealers r [] = r"
| "AddDealers r ((i, d) # calls) = AddDealers (fst (AddDealer r i d)) calls"

fun AddResponses ::
  "('s, 'p) Dealer \<Rightarrow> (int \<times> 'p Response) list \<Rightarrow> ('s, 'p) Dealer" where
  "AddResponses d [] = d"
| "AddResponses d ((i, response) # calls) = AddResponses (fst (Dealer_AddResponse d i response)) calls"

text \<open>The number of calls of a sequence that \<^verbatim>\<open>Dealer.AddResponse\<close> accepts.\<close>

fun acceptedCalls :: "('s, 'p) Dealer \<Rightarrow> (int \<times> 'p Response) list \<Rightarrow> int" where
  "acceptedCalls d [] = 0"
| "acceptedCalls d ((i, response) # calls) =
     (case Dealer_AddResponse d i response of
        (d', None) \<Rightarrow> 1 + acceptedCalls d' calls
      | (d', Some e) \<Rightarrow> acceptedCalls d' calls)"

subsection \<open>A small instance\<close>

text \<open>
  The integers as both scalars and points, with base point 1: the commitment of a scalar
  is the scalar itself. Three receivers with indices 0, 1 and 2, threshold \<open>T = 2\<close>,
  certification threshold \<open>R = 2\<close>. The dealer \<open>exDealer a b\<close> shares the polynomial
  \<open>a + b x\<close>; \<open>exCertified a b\<close> is that dealer after the three receivers have accepted
  it and handed their responses back.
\<close>

definition intSuite :: "(int, int) Suite" where
  "intSuite = \<lparr>SecretZero = 0, SecretAdd = (+), SecretMul = (*), SecretSetInt64 = (\<lambda>i. i),
     PointNull = 0, PointBase = 1, PointAdd = (+), PointMul = (*)\<rparr>"

definition exInfo :: "(int, int) PolyInfo" where
  "exInfo = \<lparr>Suite = intSuite, T = 2, R = 2, N = 3\<rparr>"

definition exKey :: "int \<Rightarrow> (int, int) KeyPair" where
  "exKey i = \<lparr>PublicKey = 10 + i, PrivateKey = 10 + i\<rparr>"

definition exDealer :: "int \<Rightarrow> int \<Rightarrow> (int, int) Dealer" where
  "exDealer a b =
     NewDealer (\<lambda>k. b) exInfo \<lparr>PublicKey = a, PrivateKey = a\<rparr> (exKey 100)
       [PublicKey (exKey 0), PublicKey (exKey 1), PublicKey (exKey 2)]"

definition respond :: "int \<Rightarrow> (int, int) Dealer \<Rightarrow> (int, int) Dealer" where
  "respond i d =
     (case AddDealer (NewReceiver exInfo (exKey i)) i d of
        (r, Some resp, err) \<Rightarrow> fst (Dealer_AddResponse d i resp)
      | (r, None, err) \<Rightarrow> d)"

definition exCertified :: "int \<Rightarrow> int \<Rightarrow> (int, int) Dealer" where
  "exCertified a b = respond 2 (respond 1 (respond 0 (exDealer a b)))"

definition exReceiver :: "int \<Rightarrow> (int, int) Dealer list \<Rightarrow> (int, int) Receiver" where
  "exReceiver i ds = \<lparr>Receiver.info = exInfo, index = i, Key = exKey i, Dealers = ds\<rparr>"

text \<open>
  A dealer that is certified but whose share for receiver 0 no longer matches its
  commitment: the share was changed after the responses were given.
\<close>

definition exCheater :: "(int, int) Dealer" where
  "exCheater =
     (exCertified 1 1)\<lparr>State := (State (exCertified 1 1))
        \<lparr>sPromise := (sPromise (State (exCertified 1 1)))\<lparr>secrets := [(10, 7), (11, 2), (12, 3)]\<rparr>\<rparr>\<rparr>"

subsection \<open>Properties of the scan\<close>

text \<open>
  Auxiliary facts about lists, about \<open>PubPoly_Add\<close> and about the loop of
  \<^verbatim>\<open>ProduceSharedSecret\<close>. None of them looks inside \<open>RevealShare\<close> or \<open>Check\<close>:
  they hold for whatever these two compute.
\<close>

lemma take_filter_all:
  "(\<forall>x \<in> set (take k xs). P x) \<Longrightarrow> take k (filter P xs) = take k xs"
proof (induction xs arbitrary: k)
  case Nil
  then show ?case by simp
next
  case (Cons x xs)
  then show ?case by (cases k) auto
qed

lemma PubPoly_Add_length:
  "PubPoly_Add a c = Some pub' \<Longrightarrow> length (coeffs pub') = length (coeffs a)"
  by (auto simp: PubPoly_Add_def split: if_splits)

lemma PubPoly_Add_fits:
  "length (coeffs c) = length (coeffs a) \<Longrightarrow> \<exists>pub'. PubPoly_Add a c = Some pub'"
  by (simp add: PubPoly_Add_def)

lemma length_filter_take_le: "length (filter P (take k xs)) \<le> length (filter P xs)"
proof -
  have "filter P xs = filter P (take k xs) @ filter P (drop k xs)"
    by (metis append_take_drop_id filter_append)
  then show ?thesis by simp
qed

lemma nullPubPoly_length: "length (coeffs (nullPubPoly r)) = nat (T (Receiver.info r))"
  by (simp add: nullPubPoly_def InitNull_def)

text \<open>
  When the loop ends with at least \<open>T\<close> good shares, it consumed exactly the dealers
  that were still needed, every one of them revealed its share, and the accumulators are
  the sums over these dealers.
\<close>

lemma scanDealers_success:
  "scanDealers r ds pos share pub good = Inr (share', pub', good') \<Longrightarrow>
   T (Receiver.info r) \<le> good' \<Longrightarrow>
   nat (T (Receiver.info r) - good) \<le> length ds \<and>
   (\<forall>d \<in> set (take (nat (T (Receiver.info r) - good)) ds). revealsGood r d) \<and>
   share' = sumShares r share (take (nat (T (Receiver.info r) - good)) ds) \<and>
   sumPubPolys pub (take (nat (T (Receiver.info r) - good)) ds) = Some pub' \<and>
   good' = max good (T (Receiver.info r))"
proof (induction ds arbitrary: pos share pub good)
  case Nil
  then show ?case by (simp add: sumShares_def)
next
  case (Cons d ds)
  show ?case
  proof (cases "T (Receiver.info r) \<le> good")
    case True
    with Cons.prems show ?thesis by (simp add: sumShares_def)
  next
    case False
    then obtain k where k: "nat (T (Receiver.info r) - good) = Suc k"
      "nat (T (Receiver.info r) - (good + 1)) = k"
      by (cases "nat (T (Receiver.info r) - good)") (auto simp: nat_diff_distrib)
    from Cons.prems(1) False obtain s pub1 where
      rv: "RevealShare (State d) (index r) (Key r) = Inr s" and
      ad: "PubPoly_Add pub (pubPoly (Promise d)) = Some pub1" and
      rec: "scanDealers r ds (pos + 1) (SecretAdd (Suite (Receiver.info r)) share s) pub1 (good + 1)
              = Inr (share', pub', good')"
      by (auto split: sum.splits option.splits)
    from Cons.IH[OF rec Cons.prems(2)] k rv ad False show ?thesis
      by (auto simp: revealsGood_def revealed_def sumShares_def)
  qed
qed

text \<open>Once the loop has its \<open>T\<close> good shares, later dealers are not looked at.\<close>

lemma scanDealers_stops:
  "scanDealers r ds pos share pub good = Inr (share', pub', good') \<Longrightarrow>
   T (Receiver.info r) \<le> good' \<Longrightarrow>
   scanDealers r (ds @ extra) pos share pub good = Inr (share', pub', good')"
proof (induction ds arbitrary: pos share pub good)
  case Nil
  then show ?case by (cases extra) auto
next
  case (Cons d ds)
  then show ?case by (auto split: sum.splits option.splits if_splits)
qed

text \<open>
  A dealer whose \<open>RevealShare\<close> fails, reached after dealers that all revealed their
  share, ends the loop with the error of line 159; the position reported is the loop index.
\<close>

lemma scanDealers_reveal_failure:
  "\<forall>x \<in> set ds. revealsGood r x \<and> fitsDegree r x \<Longrightarrow>
   length (coeffs pub) = nat (T (Receiver.info r)) \<Longrightarrow>
   good + int (length ds) < T (Receiver.info r) \<Longrightarrow>
   RevealShare (State d) (index r) (Key r) = Inl e \<Longrightarrow>
   scanDealers r (ds @ d # rest) pos share pub good
     = Inl (RevealFailure (index r) (pos + int (length ds)) e)"
proof (induction ds arbitrary: pos share pub good)
  case Nil
  then show ?case by simp
next
  case (Cons x xs)
  from Cons.prems(1) obtain s where s: "RevealShare (State x) (index r) (Key r) = Inr s"
    by (auto simp: revealsGood_def split: sum.splits)
  from Cons.prems(1,2) have "length (coeffs (pubPoly (Promise x))) = length (coeffs pub)"
    by (simp add: fitsDegree_def)
  then obtain pub1 where a: "PubPoly_Add pub (pubPoly (Promise x)) = Some pub1"
    using PubPoly_Add_fits by blast
  have l: "length (coeffs pub1) = nat (T (Receiver.info r))"
    using PubPoly_Add_length[OF a] Cons.prems(2) by simp
  have "scanDealers r (xs @ d # rest) (pos + 1) (SecretAdd (Suite (Receiver.info r)) share s)
          pub1 (good + 1) = Inl (RevealFailure (index r) (pos + 1 + int (length xs)) e)"
    using Cons.prems by (intro Cons.IH l) auto
  with s a Cons.prems(3) show ?case by (simp add: add.assoc add.commute)
qed

text \<open>Dealers that all reveal their share, fewer than are still needed, are all consumed.\<close>

lemma scanDealers_all_good:
  "\<forall>x \<in> set ds. revealsGood r x \<and> fitsDegree r x \<Longrightarrow>
   length (coeffs pub) = nat (T (Receiver.info r)) \<Longrightarrow>
   good + int (length ds) \<le> T (Receiver.info r) \<Longrightarrow>
   \<exists>share' pub'. scanDealers r ds pos share pub good = Inr (share', pub', good + int (length ds))"
proof (induction ds arbitrary: pos share pub good)
  case Nil
  then show ?case by simp
next
  case (Cons x xs)
  from Cons.prems(1) obtain s where s: "RevealShare (State x) (index r) (Key r) = Inr s"
    by (auto simp: revealsGood_def split: sum.splits)
  from Cons.prems(1,2) have "length (coeffs (pubPoly (Promise x))) = length (coeffs pub)"
    by (simp add: fitsDegree_def)
  then obtain pub1 where a: "PubPoly_Add pub (pubPoly (Promise x)) = Some pub1"
    using PubPoly_Add_fits by blast
  have l: "length (coeffs pub1) = nat (T (Receiver.info r))"
    using PubPoly_Add_length[OF a] Cons.prems(2) by simp
  have "\<exists>share' pub'. scanDealers r xs (pos + 1) (SecretAdd (Suite (Receiver.info r)) share s)
          pub1 (good + 1) = Inr (share', pub', good + 1 + int (length xs))"
    using Cons.prems by (intro Cons.IH l) auto
  with s a Cons.prems(3) show ?case by (auto simp: algebra_simps)
qed

lemma ProduceSharedSecret_Inr:
  "ProduceSharedSecret r = Inr ss \<Longrightarrow>
   Dealers r \<noteq> [] \<and>
   (\<exists>good. scanDealers r (Dealers r) 0 (nullShare r) (nullPubPoly r) 0
              = Inr (Share ss, Pub ss, good) \<and> T (Receiver.info r) \<le> good) \<and>
   Check (Pub ss) (index r) (Share ss) \<and> Index ss = index r"
  by (auto simp: ProduceSharedSecret_def nullShare_def nullPubPoly_def
      split: if_splits sum.splits prod.splits)

lemma ProduceSharedSecret_aggregates:
  assumes "ProduceSharedSecret r = Inr ss"
  shows "nat (T (Receiver.info r)) \<le> length (Dealers r)"
    and "\<forall>d \<in> set (take (nat (T (Receiver.info r))) (Dealers r)). revealsGood r d"
    and "Share ss = sumShares r (nullShare r) (take (nat (T (Receiver.info r))) (Dealers r))"
    and "sumPubPolys (nullPubPoly r) (take (nat (T (Receiver.info r))) (Dealers r)) = Some (Pub ss)"
proof -
  from ProduceSharedSecret_Inr[OF assms] obtain good where
    sc: "scanDealers r (Dealers r) 0 (nullShare r) (nullPubPoly r) 0 = Inr (Share ss, Pub ss, good)"
    and g: "T (Receiver.info r) \<le> good" by blast
  from scanDealers_success[OF sc g]
  show "nat (T (Receiver.info r)) \<le> length (Dealers r)"
    and "\<forall>d \<in> set (take (nat (T (Receiver.info r))) (Dealers r)). revealsGood r d"
    and "Share ss = sumShares r (nullShare r) (take (nat (T (Receiver.info r))) (Dealers r))"
    and "sumPubPolys (nullPubPoly r) (take (nat (T (Receiver.info r))) (Dealers r)) = Some (Pub ss)"
    by simp_all
qed

subsection \<open>Properties of AddDealer and of the response count\<close>

lemma ProduceResponse_not_IndexMismatch:
  "snd (ProduceResponse promise i key) \<noteq> Some (IndexMismatch a b)"
  by (simp add: ProduceResponse_def split: option.splits)

lemma AddDealer_bound_same:
  "index r = i \<Longrightarrow>
   AddDealer r i d = (r\<lparr>Dealers := Dealers r @ [d]\<rparr>, ProduceResponse (Promise d) i (Key r))"
  by (simp add: AddDealer_def split: prod.splits)

lemma AddDealer_unbound:
  "index r = - 1 \<Longrightarrow>
   AddDealer r i d = (r\<lparr>index := i, Dealers := Dealers r @ [d]\<rparr>, ProduceResponse (Promise d) i (Key r))"
  by (simp add: AddDealer_def split: prod.splits)

lemma AddDealer_bound_other:
  "index r \<noteq> - 1 \<Longrightarrow> index r \<noteq> j \<Longrightarrow>
   AddDealer r j d = (r, None, Some (IndexMismatch j (index r)))"
  by (simp add: AddDealer_def)

lemma AddDealer_keeps_bound_index:
  "index r \<noteq> - 1 \<Longrightarrow> index (fst (AddDealer r j d)) = index r"
  by (cases "index r = j") (simp_all add: AddDealer_bound_same AddDealer_bound_other)

lemma AddDealers_keeps_bound_index:
  "index r \<noteq> - 1 \<Longrightarrow> index (AddDealers r calls) = index r"
proof (induction calls arbitrary: r)
  case Nil
  then show ?case by simp
next
  case (Cons c calls)
  obtain j d where c: "c = (j, d)" by (cases c)
  have "index (fst (AddDealer r j d)) = index r"
    using Cons.prems by (rule AddDealer_keeps_bound_index)
  with Cons.IH[of "fst (AddDealer r j d)"] Cons.prems c show ?case by simp
qed

lemma count_after_update:
  "i < length xs \<Longrightarrow> xs ! i = None \<Longrightarrow>
   length (filter (\<lambda>x. x \<noteq> None) (xs[i := Some v])) = Suc (length (filter (\<lambda>x. x \<noteq> None) xs))"
proof (induction xs arbitrary: i)
  case Nil
  then show ?case by simp
next
  case (Cons x xs)
  then show ?case by (cases i) auto
qed

lemma State_AddResponse_accepts:
  assumes "State_AddResponse st i response = (st', None)"
  shows "acceptedResponses st' = acceptedResponses st + 1 \<and> sPromise st' = sPromise st"
proof -
  from assms have r: "0 \<le> i" "i < int (length (responses st))" "responses st ! nat i = None"
    and st': "st' = st\<lparr>responses := (responses st)[nat i := Some response]\<rparr>"
    by (auto simp: State_AddResponse_def split: if_splits)
  from r have "nat i < length (responses st)" by linarith
  from count_after_update[OF this r(3), of response] st' show ?thesis
    by (simp add: acceptedResponses_def)
qed

lemma State_AddResponse_rejects:
  "State_AddResponse st i response = (st', Some e) \<Longrightarrow> st' = st"
  by (auto simp: State_AddResponse_def split: if_splits)

lemma AddResponses_count:
  "acceptedResponses (State (AddResponses d calls))
     = acceptedResponses (State d) + acceptedCalls d calls \<and>
   sPromise (State (AddResponses d calls)) = sPromise (State d)"
proof (induction calls arbitrary: d)
  case Nil
  then show ?case by simp
next
  case (Cons c calls)
  obtain i response where c: "c = (i, response)" by (cases c)
  obtain st' err where a: "State_AddResponse (State d) i response = (st', err)"
    by (cases "State_AddResponse (State d) i response")
  show ?case
  proof (cases err)
    case None
    with a State_AddResponse_accepts[of "State d" i response st'] Cons.IH[of "d\<lparr>State := st'\<rparr>"] c
    show ?thesis by (simp add: Dealer_AddResponse_def)
  next
    case (Some e)
    with a State_AddResponse_rejects[of "State d" i response st' e] Cons.IH[of "d\<lparr>State := st'\<rparr>"] c
    show ?thesis by (simp add: Dealer_AddResponse_def)
  qed
qed

lemma acceptedCalls_nonneg: "0 \<le> acceptedCalls d calls"
proof (induction calls arbitrary: d)
  case Nil
  then show ?case by simp
next
  case (Cons c calls)
  obtain i response where c: "c = (i, response)" by (cases c)
  obtain d' err where a: "Dealer_AddResponse d i response = (d', err)"
    by (cases "Dealer_AddResponse d i response")
  from Cons.IH[of d'] a c show ?case by (cases err) auto
qed

lemma Dealer_Init_State:
  "acceptedResponses (State (Dealer_Init coins info' secret promiser receiverList)) = 0 \<and>
   certR (sPromise (State (Dealer_Init coins info' secret promiser receiverList))) = R info'"
  by (simp add: Dealer_Init_def State_Init_def acceptedResponses_def ConstructPromise_def Let_def)

subsection \<open>The small instance, evaluated\<close>

text \<open>
  The dealers of the instance as explicit records, and the outcome of
  \<^verbatim>\<open>ProduceSharedSecret\<close> on the receivers used below.
\<close>

lemmas ex_defs = exCertified_def respond_def exDealer_def NewDealer_def Dealer_Init_def ConstructPromise_def
     exInfo_def intSuite_def exKey_def NewReceiver_def Receiver_Init_def AddDealer_def ProduceResponse_def
     recoverShare_def Check_def PubPoly_Eval_def PriPoly_Eval_def State_Init_def Dealer_AddResponse_def
     State_AddResponse_def verifyResponse_def Let_def enumerate_eq_zip

lemma exCertified_eq:
  "exCertified a b =
     \<lparr>Dealer.info = exInfo,
      Promise = \<lparr>pubPoly = \<lparr>group = intSuite, basePoint = 1, coeffs = [a, b]\<rparr>,
                 secrets = [(10, a), (11, a + b), (12, a + b * 2)], certT = 2, certR = 2\<rparr>,
      State = \<lparr>sPromise = \<lparr>pubPoly = \<lparr>group = intSuite, basePoint = 1, coeffs = [a, b]\<rparr>,
                 secrets = [(10, a), (11, a + b), (12, a + b * 2)], certT = 2, certR = 2\<rparr>,
               responses = [Some \<lparr>validated = a\<rparr>, Some \<lparr>validated = a + b\<rparr>,
                            Some \<lparr>validated = a + b * 2\<rparr>]\<rparr>\<rparr>"
  by (simp add: ex_defs upt_rec numeral_2_eq_2)

lemma exDealer_eq:
  "exDealer a b =
     \<lparr>Dealer.info = exInfo,
      Promise = \<lparr>pubPoly = \<lparr>group = intSuite, basePoint = 1, coeffs = [a, b]\<rparr>,
                 secrets = [(10, a), (11, a + b), (12, a + b * 2)], certT = 2, certR = 2\<rparr>,
      State = \<lparr>sPromise = \<lparr>pubPoly = \<lparr>group = intSuite, basePoint = 1, coeffs = [a, b]\<rparr>,
                 secrets = [(10, a), (11, a + b), (12, a + b * 2)], certT = 2, certR = 2\<rparr>,
               responses = [None, None, None]\<rparr>\<rparr>"
  by (simp add: ex_defs upt_rec numeral_2_eq_2 numeral_3_eq_3)

lemmas run_defs = ProduceSharedSecret_def exReceiver_def exCertified_eq exDealer_eq exCheater_def
  RevealShare_def PromiseCertified_def acceptedResponses_def recoverShare_def
  exKey_def exInfo_def intSuite_def InitNull_def PubPoly_Add_def Check_def PubPoly_Eval_def
  nullShare_def nullPubPoly_def revealsGood_def fitsDegree_def numeral_2_eq_2

lemmas add_defs = AddDealer_def Receiver_Init_def NewReceiver_def ProduceResponse_def recoverShare_def
  Check_def PubPoly_Eval_def exCertified_eq exDealer_eq exKey_def exInfo_def intSuite_def

lemmas resp_defs = Certified_def PromiseCertified_def acceptedResponses_def Dealer_AddResponse_def
  State_AddResponse_def verifyResponse_def PubPoly_Eval_def exDealer_eq exCertified_eq
  exInfo_def intSuite_def

lemma run_good_0:
  "ProduceSharedSecret (exReceiver 0 [exCertified 1 1, exCertified 2 3, exCertified 5 1])
     = Inr \<lparr>Pub = \<lparr>group = intSuite, basePoint = 1, coeffs = [3, 4]\<rparr>, Share = 3, Index = 0\<rparr>"
  by (simp add: run_defs)

lemma run_good_1:
  "ProduceSharedSecret (exReceiver 1 [exCertified 1 1, exCertified 2 3, exCertified 5 1])
     = Inr \<lparr>Pub = \<lparr>group = intSuite, basePoint = 1, coeffs = [3, 4]\<rparr>, Share = 7, Index = 1\<rparr>"
  by (simp add: run_defs)

lemma run_reversed_1:
  "ProduceSharedSecret (exReceiver 1 [exCertified 5 1, exCertified 2 3, exCertified 1 1])
     = Inr \<lparr>Pub = \<lparr>group = intSuite, basePoint = 1, coeffs = [7, 4]\<rparr>, Share = 11, Index = 1\<rparr>"
  by (simp add: run_defs)

lemma run_cheater_scan:
  "scanDealers (exReceiver 0 [exCheater, exCertified 2 3]) (Dealers (exReceiver 0 [exCheater, exCertified 2 3]))
      0 (nullShare (exReceiver 0 [exCheater, exCertified 2 3]))
      (nullPubPoly (exReceiver 0 [exCheater, exCertified 2 3])) 0
     = Inr (9, \<lparr>group = intSuite, basePoint = 1, coeffs = [3, 4]\<rparr>, 2)"
  by (simp add: run_defs)

lemma run_bad_first:
  "ProduceSharedSecret (exReceiver 0 [exDealer 1 1, exCertified 2 3, exCertified 5 1])
     = Inl (RevealFailure 0 0 CertificationShortfall)"
  by (simp add: run_defs)

lemma run_skipped:
  "ProduceSharedSecret (exReceiver 0 [exCertified 2 3, exCertified 5 1])
     = Inr \<lparr>Pub = \<lparr>group = intSuite, basePoint = 1, coeffs = [7, 4]\<rparr>, Share = 7, Index = 0\<rparr>"
  by (simp add: run_defs)

lemma run_bad_second_facts:
  "Dealers (exReceiver 0 [exCertified 1 1, exDealer 2 3, exCertified 5 1])
     = [exCertified 1 1] @ exDealer 2 3 # [exCertified 5 1]"
  "int (length [exCertified 1 1]) < T (Receiver.info (exReceiver 0 [exCertified 1 1, exDealer 2 3, exCertified 5 1]))"
  "\<forall>x \<in> set [exCertified 1 1].
      revealsGood (exReceiver 0 [exCertified 1 1, exDealer 2 3, exCertified 5 1]) x \<and>
      fitsDegree (exReceiver 0 [exCertified 1 1, exDealer 2 3, exCertified 5 1]) x"
  "\<not> revealsGood (exReceiver 0 [exCertified 1 1, exDealer 2 3, exCertified 5 1]) (exDealer 2 3)"
  "RevealShare (State (exDealer 2 3)) (index (exReceiver 0 [exCertified 1 1, exDealer 2 3, exCertified 5 1]))
     (Key (exReceiver 0 [exCertified 1 1, exDealer 2 3, exCertified 5 1])) = Inl CertificationShortfall"
  by (simp_all add: run_defs)

subsection \<open>The returned secret verifies (C1)\<close>

text \<open>
  C1. Every SharedSecret that \<^verbatim>\<open>ProduceSharedSecret\<close> returns satisfies
  \<open>Pub.Check(Index, Share)\<close>, and its \<open>Index\<close> is the receiver's index. When the loop
  ends with enough good shares but the aggregates do not verify, the function returns the
  consistency error of line 174 and no SharedSecret.
\<close>

theorem ProduceSharedSecret_checked:
  "(ProduceSharedSecret r = Inr ss \<longrightarrow>
      Check (Pub ss) (Index ss) (Share ss) \<and> Index ss = index r) \<and>
   (Dealers r \<noteq> [] \<and>
    scanDealers r (Dealers r) 0 (nullShare r) (nullPubPoly r) 0 = Inr (share, pub, good) \<and>
    T (Receiver.info r) \<le> good \<and> \<not> Check pub (index r) share \<longrightarrow>
      ProduceSharedSecret r = Inl ConsistencyFailure)"
proof -
  have a: "ProduceSharedSecret r = Inr ss \<longrightarrow>
      Check (Pub ss) (Index ss) (Share ss) \<and> Index ss = index r"
  proof
    assume "ProduceSharedSecret r = Inr ss"
    from ProduceSharedSecret_Inr[OF this]
    show "Check (Pub ss) (Index ss) (Share ss) \<and> Index ss = index r" by simp
  qed
  have b: "Dealers r \<noteq> [] \<and>
    scanDealers r (Dealers r) 0 (nullShare r) (nullPubPoly r) 0 = Inr (share, pub, good) \<and>
    T (Receiver.info r) \<le> good \<and> \<not> Check pub (index r) share \<longrightarrow>
      ProduceSharedSecret r = Inl ConsistencyFailure"
    by (cases "Dealers r") (auto simp: ProduceSharedSecret_def nullShare_def nullPubPoly_def)
  from a b show ?thesis by (rule conjI)
qed

text \<open>
  C1, at the instance: receiver 0 with three certified dealers obtains a secret that
  verifies; with a dealer that changed the share it reveals, the aggregates \<open>9\<close> and
  \<open>[3, 4]\<close> do not verify and the consistency error is returned.
\<close>

theorem ProduceSharedSecret_checked_witness:
  "ProduceSharedSecret (exReceiver 0 [exCertified 1 1, exCertified 2 3, exCertified 5 1])
     = Inr \<lparr>Pub = \<lparr>group = intSuite, basePoint = 1, coeffs = [3, 4]\<rparr>, Share = 3, Index = 0\<rparr> \<and>
   Check \<lparr>group = intSuite, basePoint = 1, coeffs = [3, 4]\<rparr> 0 3 \<and>
   index (exReceiver 0 [exCertified 1 1, exCertified 2 3, exCertified 5 1]) = 0 \<and>
   \<not> Check \<lparr>group = intSuite, basePoint = 1, coeffs = [3, 4]\<rparr> 0 9 \<and>
   ProduceSharedSecret (exReceiver 0 [exCheater, exCertified 2 3]) = Inl ConsistencyFailure"
proof -
  let ?rA = "exReceiver 0 [exCertified 1 1, exCertified 2 3, exCertified 5 1]"
  let ?sA = "\<lparr>Pub = \<lparr>group = intSuite, basePoint = 1, coeffs = [3, 4]\<rparr>, Share = 3, Index = 0\<rparr>"
  let ?rB = "exReceiver 0 [exCheater, exCertified 2 3]"
  let ?pB = "\<lparr>group = intSuite, basePoint = 1, coeffs = [3, 4::int]\<rparr>"
  have hA: "ProduceSharedSecret ?rA = Inr ?sA" by (rule run_good_0)
  have nc: "\<not> Check ?pB 0 9" by (simp add: Check_def PubPoly_Eval_def intSuite_def)
  have hB: "Dealers ?rB \<noteq> [] \<and>
      scanDealers ?rB (Dealers ?rB) 0 (nullShare ?rB) (nullPubPoly ?rB) 0 = Inr (9, ?pB, 2) \<and>
      T (Receiver.info ?rB) \<le> 2 \<and> \<not> Check ?pB (index ?rB) 9"
    using run_cheater_scan nc by (simp add: exReceiver_def exInfo_def)
  from ProduceSharedSecret_checked[of ?rA ?sA] hA
  have cA: "Check (Pub ?sA) (Index ?sA) (Share ?sA) \<and> Index ?sA = index ?rA" by blast
  from ProduceSharedSecret_checked[of ?rB _ 9 ?pB 2] hB
  have cB: "ProduceSharedSecret ?rB = Inl ConsistencyFailure" by blast
  from hA cA nc cB show ?thesis by simp
qed

subsection \<open>Agreement between receivers (C2)\<close>

text \<open>
  C2 as stated speaks of two receivers that collected the same set of dealers. The loop
  takes the first \<open>T\<close> dealers of the list, so two receivers that hold the same three
  dealers in opposite orders, with \<open>T = 2\<close>, aggregate different pairs of dealers: the
  public polynomials differ (\<open>[3, 4]\<close> and \<open>[7, 4]\<close>), and the share of receiver 1 does
  not verify against the polynomial of receiver 0.
\<close>

theorem same_dealer_set_counterexample:
  "set (Dealers (exReceiver 0 [exCertified 1 1, exCertified 2 3, exCertified 5 1]))
     = set (Dealers (exReceiver 1 [exCertified 5 1, exCertified 2 3, exCertified 1 1])) \<and>
   ProduceSharedSecret (exReceiver 0 [exCertified 1 1, exCertified 2 3, exCertified 5 1])
     = Inr \<lparr>Pub = \<lparr>group = intSuite, basePoint = 1, coeffs = [3, 4]\<rparr>, Share = 3, Index = 0\<rparr> \<and>
   ProduceSharedSecret (exReceiver 1 [exCertified 5 1, exCertified 2 3, exCertified 1 1])
     = Inr \<lparr>Pub = \<lparr>group = intSuite, basePoint = 1, coeffs = [7, 4]\<rparr>, Share = 11, Index = 1\<rparr> \<and>
   \<lparr>group = intSuite, basePoint = 1, coeffs = [3, 4]\<rparr>
     \<noteq> \<lparr>group = intSuite, basePoint = 1, coeffs = [7, 4]\<rparr> \<and>
   \<not> Check \<lparr>group = intSuite, basePoint = 1, coeffs = [3, 4]\<rparr>
        (index (exReceiver 1 [exCertified 5 1, exCertified 2 3, exCertified 1 1])) 11"
proof -
  have "set (Dealers (exReceiver 0 [exCertified 1 1, exCertified 2 3, exCertified 5 1]))
     = set (Dealers (exReceiver 1 [exCertified 5 1, exCertified 2 3, exCertified 1 1]))"
    by (auto simp: exReceiver_def)
  moreover have "\<not> Check \<lparr>group = intSuite, basePoint = 1, coeffs = [3, 4]\<rparr>
        (index (exReceiver 1 [exCertified 5 1, exCertified 2 3, exCertified 1 1])) 11"
    by (simp add: Check_def PubPoly_Eval_def intSuite_def exReceiver_def)
  ultimately show ?thesis using run_good_0 run_reversed_1 by simp
qed

text \<open>
  C2, amended. Two receivers with the same suite and the same threshold \<open>T\<close> that hold
  the same dealers in the same order, and for which \<^verbatim>\<open>ProduceSharedSecret\<close> succeeds,
  obtain equal public polynomials, and the share of each verifies, at its own index,
  against the polynomial of the other.
\<close>

theorem same_dealers_same_order_agree:
  assumes "Suite (Receiver.info r1) = Suite (Receiver.info r2)"
    and "T (Receiver.info r1) = T (Receiver.info r2)"
    and "Dealers r1 = Dealers r2"
    and "ProduceSharedSecret r1 = Inr s1"
    and "ProduceSharedSecret r2 = Inr s2"
  shows "Pub s1 = Pub s2 \<and> Check (Pub s1) (index r2) (Share s2) \<and>
         Check (Pub s2) (index r1) (Share s1)"
proof -
  have n: "nullPubPoly r1 = nullPubPoly r2"
    using assms(1,2) by (simp add: nullPubPoly_def)
  have "Some (Pub s1) = Some (Pub s2)"
    using ProduceSharedSecret_aggregates(4)[OF assms(4)]
      ProduceSharedSecret_aggregates(4)[OF assms(5)] n assms(2,3) by simp
  then have e: "Pub s1 = Pub s2" by simp
  from ProduceSharedSecret_Inr[OF assms(4)] ProduceSharedSecret_Inr[OF assms(5)] e
  show ?thesis by simp
qed

text \<open>C2, amended, at the instance: receivers 0 and 1 with the same list of three dealers.\<close>

theorem same_dealers_same_order_agree_witness:
  "Suite (Receiver.info (exReceiver 0 [exCertified 1 1, exCertified 2 3, exCertified 5 1]))
     = Suite (Receiver.info (exReceiver 1 [exCertified 1 1, exCertified 2 3, exCertified 5 1])) \<and>
   T (Receiver.info (exReceiver 0 [exCertified 1 1, exCertified 2 3, exCertified 5 1]))
     = T (Receiver.info (exReceiver 1 [exCertified 1 1, exCertified 2 3, exCertified 5 1])) \<and>
   Dealers (exReceiver 0 [exCertified 1 1, exCertified 2 3, exCertified 5 1])
     = Dealers (exReceiver 1 [exCertified 1 1, exCertified 2 3, exCertified 5 1]) \<and>
   ProduceSharedSecret (exReceiver 0 [exCertified 1 1, exCertified 2 3, exCertified 5 1])
     = Inr \<lparr>Pub = \<lparr>group = intSuite, basePoint = 1, coeffs = [3, 4]\<rparr>, Share = 3, Index = 0\<rparr> \<and>
   ProduceSharedSecret (exReceiver 1 [exCertified 1 1, exCertified 2 3, exCertified 5 1])
     = Inr \<lparr>Pub = \<lparr>group = intSuite, basePoint = 1, coeffs = [3, 4]\<rparr>, Share = 7, Index = 1\<rparr> \<and>
   Check \<lparr>group = intSuite, basePoint = 1, coeffs = [3, 4]\<rparr> 1 7 \<and>
   Check \<lparr>group = intSuite, basePoint = 1, coeffs = [3, 4]\<rparr> 0 3"
proof -
  let ?r1 = "exReceiver 0 [exCertified 1 1, exCertified 2 3, exCertified 5 1]"
  let ?r2 = "exReceiver 1 [exCertified 1 1, exCertified 2 3, exCertified 5 1]"
  have h1: "Suite (Receiver.info ?r1) = Suite (Receiver.info ?r2)" by (simp add: exReceiver_def)
  have h2: "T (Receiver.info ?r1) = T (Receiver.info ?r2)" by (simp add: exReceiver_def)
  have h3: "Dealers ?r1 = Dealers ?r2" by (simp add: exReceiver_def)
  from same_dealers_same_order_agree[OF h1 h2 h3 run_good_0 run_good_1]
  have "Check \<lparr>group = intSuite, basePoint = 1, coeffs = [3, 4]\<rparr> (index ?r2) 7 \<and>
        Check \<lparr>group = intSuite, basePoint = 1, coeffs = [3, 4]\<rparr> (index ?r1) 3" by simp
  then have "Check \<lparr>group = intSuite, basePoint = 1, coeffs = [3, 4]\<rparr> 1 7 \<and>
        Check \<lparr>group = intSuite, basePoint = 1, coeffs = [3, 4]\<rparr> 0 3"
    by (simp add: exReceiver_def)
  with h1 h2 h3 run_good_0 run_good_1 show ?thesis by simp
qed

subsection \<open>The first T dealers make the aggregates (C3)\<close>

text \<open>
  C3. When \<^verbatim>\<open>ProduceSharedSecret\<close> succeeds, the dealers that contributed are the
  first \<open>T\<close> dealers that reveal their share, in the order of the list; there are exactly
  \<open>T\<close> of them (none for a \<open>T\<close> below one) and they are the first \<open>T\<close> dealers of the
  list. The returned share is the sum of their revealed shares, starting from the zero
  scalar, and the returned PubPoly is the sum of their PubPolys, starting from the null
  polynomial. The scan stops there: dealers added after them do not change the result.
\<close>

theorem ProduceSharedSecret_first_T_good:
  assumes "ProduceSharedSecret r = Inr ss"
  shows "firstGoodDealers r = take (nat (T (Receiver.info r))) (Dealers r) \<and>
         length (firstGoodDealers r) = nat (T (Receiver.info r)) \<and>
         Share ss = sumShares r (nullShare r) (firstGoodDealers r) \<and>
         sumPubPolys (nullPubPoly r) (firstGoodDealers r) = Some (Pub ss) \<and>
         (\<forall>later. ProduceSharedSecret (r\<lparr>Dealers := Dealers r @ later\<rparr>) = Inr ss)"
proof -
  note agg = ProduceSharedSecret_aggregates[OF assms]
  have f: "firstGoodDealers r = take (nat (T (Receiver.info r))) (Dealers r)"
    unfolding firstGoodDealers_def by (rule take_filter_all) (rule agg(2))
  have l: "length (firstGoodDealers r) = nat (T (Receiver.info r))"
    using agg(1) by (simp add: f)
  have s: "\<forall>later. ProduceSharedSecret (r\<lparr>Dealers := Dealers r @ later\<rparr>) = Inr ss"
  proof
    fix later
    from ProduceSharedSecret_Inr[OF assms] obtain good where
      ne: "Dealers r \<noteq> []" and
      sc: "scanDealers r (Dealers r) 0 (nullShare r) (nullPubPoly r) 0 = Inr (Share ss, Pub ss, good)"
      and g: "T (Receiver.info r) \<le> good"
      and c: "Check (Pub ss) (index r) (Share ss)" and i: "Index ss = index r" by blast
    have r': "scanDealers (r\<lparr>Dealers := Dealers r @ later\<rparr>) = scanDealers r"
    proof (intro ext)
      fix ds pos share pub gd
      show "scanDealers (r\<lparr>Dealers := Dealers r @ later\<rparr>) ds pos share pub gd
            = scanDealers r ds pos share pub gd"
        by (induction ds arbitrary: pos share pub gd) (auto split: sum.splits option.splits)
    qed
    from scanDealers_stops[OF sc g, of later] ne g c i
    show "ProduceSharedSecret (r\<lparr>Dealers := Dealers r @ later\<rparr>) = Inr ss"
      by (simp add: ProduceSharedSecret_def r' nullShare_def nullPubPoly_def)
  qed
  from f l agg(3,4) s show ?thesis by simp
qed

text \<open>
  C3, at the instance: with \<open>T = 2\<close> and three certified dealers, the first two
  contribute, the share of receiver 0 is \<open>1 + 2 = 3\<close>, and a fourth dealer, even one
  that is not certified, changes nothing.
\<close>

theorem ProduceSharedSecret_first_T_good_witness:
  "ProduceSharedSecret (exReceiver 0 [exCertified 1 1, exCertified 2 3, exCertified 5 1])
     = Inr \<lparr>Pub = \<lparr>group = intSuite, basePoint = 1, coeffs = [3, 4]\<rparr>, Share = 3, Index = 0\<rparr> \<and>
   firstGoodDealers (exReceiver 0 [exCertified 1 1, exCertified 2 3, exCertified 5 1])
     = [exCertified 1 1, exCertified 2 3] \<and>
   sumShares (exReceiver 0 [exCertified 1 1, exCertified 2 3, exCertified 5 1]) 0
      [exCertified 1 1, exCertified 2 3] = 3 \<and>
   ProduceSharedSecret (exReceiver 0 [exCertified 1 1, exCertified 2 3, exCertified 5 1, exDealer 4 4])
     = Inr \<lparr>Pub = \<lparr>group = intSuite, basePoint = 1, coeffs = [3, 4]\<rparr>, Share = 3, Index = 0\<rparr>"
proof -
  let ?r = "exReceiver 0 [exCertified 1 1, exCertified 2 3, exCertified 5 1]"
  note t = ProduceSharedSecret_first_T_good[OF run_good_0]
  have n: "nat (T (Receiver.info ?r)) = 2" "nullShare ?r = 0"
    "Dealers ?r = [exCertified 1 1, exCertified 2 3, exCertified 5 1]"
    by (simp_all add: exReceiver_def exInfo_def nullShare_def intSuite_def)
  from t n have f: "firstGoodDealers ?r = [exCertified 1 1, exCertified 2 3]"
    by (simp add: numeral_2_eq_2)
  from t f n have s: "sumShares ?r 0 [exCertified 1 1, exCertified 2 3] = 3" by simp
  from t have "ProduceSharedSecret (?r\<lparr>Dealers := Dealers ?r @ [exDealer 4 4]\<rparr>)
     = Inr \<lparr>Pub = \<lparr>group = intSuite, basePoint = 1, coeffs = [3, 4]\<rparr>, Share = 3, Index = 0\<rparr>"
    by blast
  then have l: "ProduceSharedSecret (exReceiver 0 [exCertified 1 1, exCertified 2 3, exCertified 5 1, exDealer 4 4])
     = Inr \<lparr>Pub = \<lparr>group = intSuite, basePoint = 1, coeffs = [3, 4]\<rparr>, Share = 3, Index = 0\<rparr>"
    by (simp add: exReceiver_def)
  from run_good_0 f s l show ?thesis by simp
qed

subsection \<open>Index binding (C4, C10)\<close>

text \<open>
  C4 as stated holds for every first index. The value \<open>-1\<close> is the mark of an unbound
  receiver (line 113): after a first \<^verbatim>\<open>AddDealer(-1, d)\<close> the index is still \<open>-1\<close>,
  and a following \<^verbatim>\<open>AddDealer(0, d')\<close>, with \<open>0\<close> distinct from \<open>-1\<close>, returns a
  response and no error, and sets the index to \<open>0\<close>.
\<close>

theorem AddDealer_sentinel_counterexample:
  "index (fst (AddDealer (Receiver_Init exInfo (exKey 0)) (- 1) (exCertified 1 1))) = - 1 \<and>
   (0::int) \<noteq> - 1 \<and>
   AddDealer (fst (AddDealer (Receiver_Init exInfo (exKey 0)) (- 1) (exCertified 1 1))) 0 (exCertified 2 3)
     = (\<lparr>Receiver.info = exInfo, index = 0, Key = exKey 0,
          Dealers = [exCertified 1 1, exCertified 2 3]\<rparr>,
        Some \<lparr>validated = 2\<rparr>, None)"
  by (simp add: add_defs)

text \<open>
  C4, amended. For a receiver that is unbound and a first index \<open>i\<close> other than \<open>-1\<close>:
  the first \<^verbatim>\<open>AddDealer(i, d)\<close> binds the index to \<open>i\<close>; after any further sequence of
  \<^verbatim>\<open>AddDealer\<close> calls the index is still \<open>i\<close>, every \<^verbatim>\<open>AddDealer(j, d')\<close> with
  \<open>j\<close> distinct from \<open>i\<close> returns the index-mismatch error and leaves the receiver as it
  is, and \<^verbatim>\<open>AddDealer(i, d')\<close> passes the index test: it appends the dealer and
  returns what \<^verbatim>\<open>ProduceResponse\<close> returns, which is never an index-mismatch error.
\<close>

theorem AddDealer_index_binding:
  assumes "index r0 = - 1" and "i \<noteq> - 1"
    and "r = AddDealers (fst (AddDealer r0 i d)) calls"
  shows "index (fst (AddDealer r0 i d)) = i \<and>
         index r = i \<and>
         (\<forall>j d'. j \<noteq> i \<longrightarrow> AddDealer r j d' = (r, None, Some (IndexMismatch j i))) \<and>
         (\<forall>d'. AddDealer r i d'
                 = (r\<lparr>Dealers := Dealers r @ [d']\<rparr>, ProduceResponse (Promise d') i (Key r)) \<and>
               (\<forall>a b. snd (snd (AddDealer r i d')) \<noteq> Some (IndexMismatch a b)))"
proof -
  have b: "index (fst (AddDealer r0 i d)) = i"
    using assms(1) by (simp add: AddDealer_unbound)
  have k: "index r = i"
    using assms(2,3) b AddDealers_keeps_bound_index[of "fst (AddDealer r0 i d)" calls] by simp
  have o: "\<forall>j d'. j \<noteq> i \<longrightarrow> AddDealer r j d' = (r, None, Some (IndexMismatch j i))"
    using k assms(2) AddDealer_bound_other[of r] by auto
  have s: "\<forall>d'. AddDealer r i d'
                 = (r\<lparr>Dealers := Dealers r @ [d']\<rparr>, ProduceResponse (Promise d') i (Key r)) \<and>
               (\<forall>a b. snd (snd (AddDealer r i d')) \<noteq> Some (IndexMismatch a b))"
    using k by (simp add: AddDealer_bound_same ProduceResponse_not_IndexMismatch)
  from b k o s show ?thesis by blast
qed

text \<open>
  C4, amended, at the instance: a fresh receiver bound to index 0, then called with index
  1 (refused) and index 0 (accepted), refuses index 2 and accepts index 0.
\<close>

theorem AddDealer_index_binding_witness:
  "index (Receiver_Init exInfo (exKey 0)) = - 1 \<and> (0::int) \<noteq> - 1 \<and>
   index (fst (AddDealer (Receiver_Init exInfo (exKey 0)) 0 (exCertified 1 1))) = 0 \<and>
   index (AddDealers (fst (AddDealer (Receiver_Init exInfo (exKey 0)) 0 (exCertified 1 1)))
            [(1, exCertified 2 3), (0, exCertified 5 1)]) = 0 \<and>
   AddDealer (AddDealers (fst (AddDealer (Receiver_Init exInfo (exKey 0)) 0 (exCertified 1 1)))
                [(1, exCertified 2 3), (0, exCertified 5 1)]) 2 (exCertified 2 3)
     = (AddDealers (fst (AddDealer (Receiver_Init exInfo (exKey 0)) 0 (exCertified 1 1)))
          [(1, exCertified 2 3), (0, exCertified 5 1)], None, Some (IndexMismatch 2 0)) \<and>
   snd (snd (AddDealer (AddDealers (fst (AddDealer (Receiver_Init exInfo (exKey 0)) 0 (exCertified 1 1)))
                [(1, exCertified 2 3), (0, exCertified 5 1)]) 0 (exCertified 2 3)))
     \<noteq> Some (IndexMismatch 0 0)"
proof -
  let ?init = "Receiver_Init exInfo (exKey 0)"
  let ?r = "AddDealers (fst (AddDealer ?init 0 (exCertified 1 1)))
              [(1, exCertified 2 3), (0, exCertified 5 1)]"
  have h1: "index ?init = - 1" by (simp add: Receiver_Init_def)
  have h2: "(0::int) \<noteq> - 1" by simp
  note t = AddDealer_index_binding[OF h1 h2 refl, of "exCertified 1 1"
      "[(1, exCertified 2 3), (0, exCertified 5 1)]"]
  from t have a: "index (fst (AddDealer ?init 0 (exCertified 1 1))) = 0" by blast
  from t have b: "index ?r = 0" by blast
  from t have c: "AddDealer ?r 2 (exCertified 2 3) = (?r, None, Some (IndexMismatch 2 0))"
    by simp
  from t have d: "snd (snd (AddDealer ?r 0 (exCertified 2 3))) \<noteq> Some (IndexMismatch 0 0)"
    by blast
  from h1 h2 a b c d show ?thesis by blast
qed




subsection \<open>A dealer that fails to reveal (C5, C6)\<close>

text \<open>
  C5 as stated has a failing dealer skipped and the scan going on. At the instance the
  first of three dealers is not certified, so its \<open>RevealShare\<close> fails; the two dealers
  after it are certified and would be enough (\<open>T = 2\<close>): without the first dealer the
  receiver obtains a secret. With it, the function returns the reveal error of line 159.
\<close>

theorem failing_dealer_not_skipped_counterexample:
  "\<not> revealsGood (exReceiver 0 [exDealer 1 1, exCertified 2 3, exCertified 5 1]) (exDealer 1 1) \<and>
   ProduceSharedSecret (exReceiver 0 [exDealer 1 1, exCertified 2 3, exCertified 5 1])
     = Inl (RevealFailure 0 0 CertificationShortfall) \<and>
   ProduceSharedSecret (exReceiver 0 [exCertified 2 3, exCertified 5 1])
     = Inr \<lparr>Pub = \<lparr>group = intSuite, basePoint = 1, coeffs = [7, 4]\<rparr>, Share = 7, Index = 0\<rparr>"
proof -
  have "\<not> revealsGood (exReceiver 0 [exDealer 1 1, exCertified 2 3, exCertified 5 1]) (exDealer 1 1)"
    by (simp add: run_defs)
  with run_bad_first run_skipped show ?thesis by simp
qed

text \<open>
  C5, amended. A dealer whose \<open>RevealShare\<close> fails when the scan reaches it (fewer than
  \<open>T\<close> dealers before it, all of which revealed their share and have a PubPoly of the
  degree of the aggregate) is not skipped: no SharedSecret is returned, and the dealers
  after it are not considered, the result being the same whatever they are.
\<close>

theorem failing_dealer_ends_scan:
  assumes "Dealers r = ds @ d # rest"
    and "int (length ds) < T (Receiver.info r)"
    and "\<forall>x \<in> set ds. revealsGood r x \<and> fitsDegree r x"
    and "\<not> revealsGood r d"
  shows "(\<forall>ss. ProduceSharedSecret r \<noteq> Inr ss) \<and>
         (\<forall>rest'. ProduceSharedSecret (r\<lparr>Dealers := ds @ d # rest'\<rparr>) = ProduceSharedSecret r)"
proof -
  from assms(4) obtain e where e: "RevealShare (State d) (index r) (Key r) = Inl e"
    by (auto simp: revealsGood_def split: sum.splits)
  have sc: "\<And>tl. scanDealers r (ds @ d # tl) 0 (nullShare r) (nullPubPoly r) 0
              = Inl (RevealFailure (index r) (int (length ds)) e)"
    using scanDealers_reveal_failure[OF assms(3) nullPubPoly_length _ e, of 0 _ 0 "nullShare r"]
      assms(2) by simp
  have r': "\<And>tl. scanDealers (r\<lparr>Dealers := tl\<rparr>) = scanDealers r"
  proof (intro ext)
    fix tl xs pos share pub gd
    show "scanDealers (r\<lparr>Dealers := tl\<rparr>) xs pos share pub gd = scanDealers r xs pos share pub gd"
      by (induction xs arbitrary: pos share pub gd) (auto split: sum.splits option.splits)
  qed
  have p: "\<And>tl. ProduceSharedSecret (r\<lparr>Dealers := ds @ d # tl\<rparr>)
             = Inl (RevealFailure (index r) (int (length ds)) e)"
    using sc by (simp add: ProduceSharedSecret_def r' nullShare_def nullPubPoly_def)
  have "r\<lparr>Dealers := ds @ d # rest\<rparr> = r" using assms(1) by simp
  with p[of rest] have q: "ProduceSharedSecret r = Inl (RevealFailure (index r) (int (length ds)) e)"
    by simp
  from p q show ?thesis by simp
qed

text \<open>
  C5, amended, at the instance: the second of three dealers is not certified; the result
  is not a SharedSecret and is the one obtained without the third dealer.
\<close>

theorem failing_dealer_ends_scan_witness:
  "\<not> revealsGood (exReceiver 0 [exCertified 1 1, exDealer 2 3, exCertified 5 1]) (exDealer 2 3) \<and>
   ProduceSharedSecret (exReceiver 0 [exCertified 1 1, exDealer 2 3, exCertified 5 1])
     \<noteq> Inr \<lparr>Pub = \<lparr>group = intSuite, basePoint = 1, coeffs = [6, 2]\<rparr>, Share = 6, Index = 0\<rparr> \<and>
   ProduceSharedSecret (exReceiver 0 [exCertified 1 1, exDealer 2 3])
     = ProduceSharedSecret (exReceiver 0 [exCertified 1 1, exDealer 2 3, exCertified 5 1])"
proof -
  let ?r = "exReceiver 0 [exCertified 1 1, exDealer 2 3, exCertified 5 1]"
  note t = failing_dealer_ends_scan[OF run_bad_second_facts(1,2,3,4)]
  from t have a: "ProduceSharedSecret ?r
     \<noteq> Inr \<lparr>Pub = \<lparr>group = intSuite, basePoint = 1, coeffs = [6, 2]\<rparr>, Share = 6, Index = 0\<rparr>"
    by blast
  from t have "ProduceSharedSecret (?r\<lparr>Dealers := [exCertified 1 1] @ exDealer 2 3 # []\<rparr>)
     = ProduceSharedSecret ?r" by blast
  then have b: "ProduceSharedSecret (exReceiver 0 [exCertified 1 1, exDealer 2 3])
     = ProduceSharedSecret ?r" by (simp add: exReceiver_def)
  from run_bad_second_facts(4) a b show ?thesis by blast
qed

text \<open>
  C6. When \<open>RevealShare\<close> fails for a dealer that the scan reaches,
  \<^verbatim>\<open>ProduceSharedSecret\<close> returns at once, with no SharedSecret and with the error of
  line 159, which carries the receiver's index, the position of the failing dealer in the
  list and the error of \<open>RevealShare\<close>.
\<close>

theorem reveal_failure_names_receiver_and_dealer:
  assumes "Dealers r = ds @ d # rest"
    and "int (length ds) < T (Receiver.info r)"
    and "\<forall>x \<in> set ds. revealsGood r x \<and> fitsDegree r x"
    and "RevealShare (State d) (index r) (Key r) = Inl e"
  shows "ProduceSharedSecret r = Inl (RevealFailure (index r) (int (length ds)) e)"
proof -
  have "scanDealers r (ds @ d # rest) 0 (nullShare r) (nullPubPoly r) 0
          = Inl (RevealFailure (index r) (int (length ds)) e)"
    using scanDealers_reveal_failure[OF assms(3) nullPubPoly_length _ assms(4), of 0 rest 0 "nullShare r"]
      assms(2) by simp
  then show ?thesis
    using assms(1) by (simp add: ProduceSharedSecret_def nullShare_def nullPubPoly_def)
qed

text \<open>
  C6, at the instance: receiver 0, second dealer (position 1) not certified.
\<close>

theorem reveal_failure_names_receiver_and_dealer_witness:
  "RevealShare (State (exDealer 2 3)) 0 (exKey 0) = Inl CertificationShortfall \<and>
   ProduceSharedSecret (exReceiver 0 [exCertified 1 1, exDealer 2 3, exCertified 5 1])
     = Inl (RevealFailure 0 1 CertificationShortfall)"
proof -
  note t = reveal_failure_names_receiver_and_dealer[OF run_bad_second_facts(1,2,3,5)]
  have "RevealShare (State (exDealer 2 3)) 0 (exKey 0) = Inl CertificationShortfall"
    using run_bad_second_facts(5) by (simp add: exReceiver_def)
  with t show ?thesis by (simp add: exReceiver_def)
qed

subsection \<open>Fewer than T good shares (C7)\<close>

text \<open>
  C7 as stated gives the InsufficientShares error whenever fewer than \<open>T\<close> dealers
  reveal a good share. At the instance the only dealer is not certified: no dealer
  reveals a good share, and the error returned is the reveal error of line 159, not the
  error of line 170.
\<close>

theorem insufficient_kind_counterexample:
  "int (length (filter (revealsGood (exReceiver 0 [exDealer 1 1])) (Dealers (exReceiver 0 [exDealer 1 1]))))
     < T (Receiver.info (exReceiver 0 [exDealer 1 1])) \<and>
   ProduceSharedSecret (exReceiver 0 [exDealer 1 1]) = Inl (RevealFailure 0 0 CertificationShortfall) \<and>
   ProduceSharedSecret (exReceiver 0 [exDealer 1 1]) \<noteq> Inl InsufficientShares"
  by (simp add: run_defs)

text \<open>
  C7, amended. \<^verbatim>\<open>ProduceSharedSecret\<close> returns no SharedSecret whenever fewer than
  \<open>T\<close> of the accepted dealers reveal a good share, and it returns a SharedSecret only
  if at least \<open>T\<close> of them do. The error is the no-dealers error of line 140 when
  there is no accepted dealer. It is InsufficientShares when there is at least one
  accepted dealer and fewer than \<open>T\<close>, each of which reveals a good share and has a
  PubPoly with \<open>T\<close> coefficients (the degree that \<^verbatim>\<open>pub.Add\<close> accepts). It is the
  reveal error of line 159, carrying the receiver's index, the position of the dealer and
  the error of \<open>RevealShare\<close>, when a dealer fails to reveal its share after fewer than
  \<open>T\<close> dealers that each revealed a good share and have a PubPoly with \<open>T\<close>
  coefficients.
\<close>

theorem fewer_than_T_good_fails:
  "(int (length (filter (revealsGood r) (Dealers r))) < T (Receiver.info r) \<longrightarrow>
      (\<forall>ss. ProduceSharedSecret r \<noteq> Inr ss)) \<and>
   (Dealers r = [] \<longrightarrow> ProduceSharedSecret r = Inl NoDealers) \<and>
   (Dealers r \<noteq> [] \<and> int (length (Dealers r)) < T (Receiver.info r) \<and>
    (\<forall>x \<in> set (Dealers r). revealsGood r x \<and> fitsDegree r x) \<longrightarrow>
      ProduceSharedSecret r = Inl InsufficientShares) \<and>
   (ProduceSharedSecret r = Inr ss' \<longrightarrow>
      T (Receiver.info r) \<le> int (length (filter (revealsGood r) (Dealers r)))) \<and>
   (Dealers r = ds @ d # rest \<and> int (length ds) < T (Receiver.info r) \<and>
    (\<forall>x \<in> set ds. revealsGood r x \<and> fitsDegree r x) \<and>
    RevealShare (State d) (index r) (Key r) = Inl e \<longrightarrow>
      ProduceSharedSecret r = Inl (RevealFailure (index r) (int (length ds)) e))"
proof -
  have enough: "T (Receiver.info r) \<le> int (length (filter (revealsGood r) (Dealers r)))"
    if "ProduceSharedSecret r = Inr ss" for ss
  proof -
    note agg = ProduceSharedSecret_aggregates[OF that]
    have "filter (revealsGood r) (take (nat (T (Receiver.info r))) (Dealers r))
            = take (nat (T (Receiver.info r))) (Dealers r)"
      using agg(2) by (simp add: filter_id_conv)
    then have "nat (T (Receiver.info r))
                \<le> length (filter (revealsGood r) (Dealers r))"
      using length_filter_take_le[of "revealsGood r" "nat (T (Receiver.info r))" "Dealers r"] agg(1)
      by simp
    then show ?thesis by linarith
  qed
  have a: "int (length (filter (revealsGood r) (Dealers r))) < T (Receiver.info r) \<longrightarrow>
      (\<forall>ss. ProduceSharedSecret r \<noteq> Inr ss)"
    using enough by fastforce
  have b: "Dealers r = [] \<longrightarrow> ProduceSharedSecret r = Inl NoDealers"
    by (simp add: ProduceSharedSecret_def)
  have c: "Dealers r \<noteq> [] \<and> int (length (Dealers r)) < T (Receiver.info r) \<and>
    (\<forall>x \<in> set (Dealers r). revealsGood r x \<and> fitsDegree r x) \<longrightarrow>
      ProduceSharedSecret r = Inl InsufficientShares"
  proof
    assume h: "Dealers r \<noteq> [] \<and> int (length (Dealers r)) < T (Receiver.info r) \<and>
      (\<forall>x \<in> set (Dealers r). revealsGood r x \<and> fitsDegree r x)"
    then obtain share' pub' where
      "scanDealers r (Dealers r) 0 (nullShare r) (nullPubPoly r) 0
         = Inr (share', pub', 0 + int (length (Dealers r)))"
      using scanDealers_all_good[of "Dealers r" r "nullPubPoly r" 0 0 "nullShare r"]
        nullPubPoly_length[of r] by auto
    with h show "ProduceSharedSecret r = Inl InsufficientShares"
      by (cases "Dealers r") (auto simp: ProduceSharedSecret_def nullShare_def nullPubPoly_def)
  qed
  have f: "Dealers r = ds @ d # rest \<and> int (length ds) < T (Receiver.info r) \<and>
    (\<forall>x \<in> set ds. revealsGood r x \<and> fitsDegree r x) \<and>
    RevealShare (State d) (index r) (Key r) = Inl e \<longrightarrow>
      ProduceSharedSecret r = Inl (RevealFailure (index r) (int (length ds)) e)"
  proof
    assume h: "Dealers r = ds @ d # rest \<and> int (length ds) < T (Receiver.info r) \<and>
      (\<forall>x \<in> set ds. revealsGood r x \<and> fitsDegree r x) \<and>
      RevealShare (State d) (index r) (Key r) = Inl e"
    then have g: "\<forall>x \<in> set ds. revealsGood r x \<and> fitsDegree r x"
      and rv: "RevealShare (State d) (index r) (Key r) = Inl e"
      and lt: "0 + int (length ds) < T (Receiver.info r)"
      and ds: "Dealers r = ds @ d # rest"
      by simp_all
    have "scanDealers r (ds @ d # rest) 0 (nullShare r) (nullPubPoly r) 0
            = Inl (RevealFailure (index r) (0 + int (length ds)) e)"
      by (rule scanDealers_reveal_failure[OF g nullPubPoly_length lt rv])
    then show "ProduceSharedSecret r = Inl (RevealFailure (index r) (int (length ds)) e)"
      using ds by (simp add: ProduceSharedSecret_def nullShare_def nullPubPoly_def)
  qed
  from a b c enough[of ss'] f show ?thesis by blast
qed

text \<open>
  C7, amended, at the instance, with \<open>T = 2\<close>: one uncertified dealer (no secret), no
  dealer (the error of line 140), one certified dealer (InsufficientShares), three
  certified dealers (a secret, and at least two good dealers), and a certified dealer
  followed by an uncertified one (the reveal error, position 1).
\<close>

theorem fewer_than_T_good_fails_witness:
  "int (length (filter (revealsGood (exReceiver 0 [exDealer 1 1])) (Dealers (exReceiver 0 [exDealer 1 1]))))
     < T (Receiver.info (exReceiver 0 [exDealer 1 1])) \<and>
   ProduceSharedSecret (exReceiver 0 [exDealer 1 1])
     \<noteq> Inr \<lparr>Pub = \<lparr>group = intSuite, basePoint = 1, coeffs = [1, 1]\<rparr>, Share = 1, Index = 0\<rparr> \<and>
   ProduceSharedSecret (exReceiver 0 []) = Inl NoDealers \<and>
   ProduceSharedSecret (exReceiver 0 [exCertified 1 1]) = Inl InsufficientShares \<and>
   ProduceSharedSecret (exReceiver 0 [exCertified 1 1, exCertified 2 3, exCertified 5 1])
     = Inr \<lparr>Pub = \<lparr>group = intSuite, basePoint = 1, coeffs = [3, 4]\<rparr>, Share = 3, Index = 0\<rparr> \<and>
   T (Receiver.info (exReceiver 0 [exCertified 1 1, exCertified 2 3, exCertified 5 1]))
     \<le> int (length (filter (revealsGood (exReceiver 0 [exCertified 1 1, exCertified 2 3, exCertified 5 1]))
          (Dealers (exReceiver 0 [exCertified 1 1, exCertified 2 3, exCertified 5 1])))) \<and>
   ProduceSharedSecret (exReceiver 0 [exCertified 1 1, exDealer 2 3, exCertified 5 1])
     = Inl (RevealFailure 0 1 CertificationShortfall)"
proof -
  let ?bad = "exReceiver 0 [exDealer 1 1]"
  let ?none = "exReceiver 0 ([] :: (int, int) Dealer list)"
  let ?one = "exReceiver 0 [exCertified 1 1]"
  let ?three = "exReceiver 0 [exCertified 1 1, exCertified 2 3, exCertified 5 1]"
  let ?second = "exReceiver 0 [exCertified 1 1, exDealer 2 3, exCertified 5 1]"
  have h1: "int (length (filter (revealsGood ?bad) (Dealers ?bad))) < T (Receiver.info ?bad)"
    by (simp add: run_defs)
  have h2: "Dealers ?none = []" by (simp add: exReceiver_def)
  have h3: "Dealers ?one \<noteq> [] \<and> int (length (Dealers ?one)) < T (Receiver.info ?one) \<and>
    (\<forall>x \<in> set (Dealers ?one). revealsGood ?one x \<and> fitsDegree ?one x)"
    by (simp add: run_defs)
  have h5: "Dealers ?second = [exCertified 1 1] @ exDealer 2 3 # [exCertified 5 1] \<and>
    int (length [exCertified 1 1]) < T (Receiver.info ?second) \<and>
    (\<forall>x \<in> set [exCertified 1 1]. revealsGood ?second x \<and> fitsDegree ?second x) \<and>
    RevealShare (State (exDealer 2 3)) (index ?second) (Key ?second) = Inl CertificationShortfall"
    using run_bad_second_facts(1,2,3,5) by blast
  from fewer_than_T_good_fails[of ?bad] h1
  have c1: "ProduceSharedSecret ?bad
     \<noteq> Inr \<lparr>Pub = \<lparr>group = intSuite, basePoint = 1, coeffs = [1, 1]\<rparr>, Share = 1, Index = 0\<rparr>"
    by blast
  from fewer_than_T_good_fails[of ?none] h2
  have c2: "ProduceSharedSecret ?none = Inl NoDealers" by blast
  from fewer_than_T_good_fails[of ?one] h3
  have c3: "ProduceSharedSecret ?one = Inl InsufficientShares" by blast
  from fewer_than_T_good_fails[of ?three] run_good_0
  have c4: "T (Receiver.info ?three) \<le> int (length (filter (revealsGood ?three) (Dealers ?three)))"
    by blast
  from fewer_than_T_good_fails[of ?second _ "[exCertified 1 1]" "exDealer 2 3" "[exCertified 5 1]"
      CertificationShortfall] h5
  have "ProduceSharedSecret ?second
     = Inl (RevealFailure (index ?second) (int (length [exCertified 1 1])) CertificationShortfall)"
    by blast
  then have c5: "ProduceSharedSecret ?second = Inl (RevealFailure 0 1 CertificationShortfall)"
    by (simp add: exReceiver_def)
  from h1 c1 c2 c3 run_good_0 c4 c5 show ?thesis by blast
qed

subsection \<open>AddDealer appends even when the response fails (C8)\<close>

text \<open>
  C8. When \<^verbatim>\<open>AddDealer\<close> is called with the receiver's index, the dealer is appended to
  the list of dealers whatever \<^verbatim>\<open>ProduceResponse\<close> returns, and the call returns the
  response and the error of \<^verbatim>\<open>ProduceResponse\<close> as they are.
\<close>

theorem AddDealer_appends_despite_error:
  assumes "index r = i"
  shows "AddDealer r i d
           = (r\<lparr>Dealers := Dealers r @ [d]\<rparr>, ProduceResponse (Promise d) i (Key r)) \<and>
         Dealers (fst (AddDealer r i d)) = Dealers r @ [d] \<and>
         snd (AddDealer r i d) = ProduceResponse (Promise d) i (Key r)"
  using assms by (simp add: AddDealer_bound_same)

text \<open>
  C8, at the instance: a receiver whose key is not the one the promise was made for; the
  response fails with a validation error, and the dealer is in the list.
\<close>

theorem AddDealer_appends_despite_error_witness:
  "index \<lparr>Receiver.info = exInfo, index = 0, Key = exKey 5, Dealers = [exCertified 2 3]\<rparr> = 0 \<and>
   AddDealer \<lparr>Receiver.info = exInfo, index = 0, Key = exKey 5, Dealers = [exCertified 2 3]\<rparr> 0
       (exCertified 1 1)
     = (\<lparr>Receiver.info = exInfo, index = 0, Key = exKey 5,
          Dealers = [exCertified 2 3, exCertified 1 1]\<rparr>, None, Some ValidationFailure)"
proof -
  let ?r = "\<lparr>Receiver.info = exInfo, index = 0, Key = exKey 5, Dealers = [exCertified 2 3]\<rparr>"
  have h: "index ?r = 0" by simp
  have p: "ProduceResponse (Promise (exCertified 1 1)) 0 (Key ?r) = (None, Some ValidationFailure)"
    by (simp add: add_defs)
  from AddDealer_appends_despite_error[OF h, of "exCertified 1 1"] p h show ?thesis by simp
qed

subsection \<open>Certification is a threshold and is monotone (C9)\<close>

text \<open>
  C9. After \<^verbatim>\<open>Dealer.Init\<close> and any sequence of \<^verbatim>\<open>Dealer.AddResponse\<close> calls,
  \<^verbatim>\<open>Dealer.Certified\<close> succeeds exactly when the number of calls that
  \<^verbatim>\<open>AddResponse\<close> accepted (responses that are valid, in range and for an index with
  no response yet) has reached \<open>R\<close>; and once it succeeds for a dealer, it succeeds after
  any further sequence of \<^verbatim>\<open>AddResponse\<close> calls. \<^verbatim>\<open>AddResponse\<close> is the only
  operation of the file that changes an initialized dealer. The statement rests on
  \<open>State_AddResponse\<close> and \<open>PromiseCertified\<close> as modelled above.
\<close>

theorem Certified_threshold_monotone:
  "(Certified (AddResponses (Dealer_Init coins info' secret promiser receiverList) calls) = None
      \<longleftrightarrow> R info' \<le> acceptedCalls (Dealer_Init coins info' secret promiser receiverList) calls) \<and>
   (Certified d = None \<longrightarrow> Certified (AddResponses d further) = None)"
proof -
  have a: "Certified (AddResponses (Dealer_Init coins info' secret promiser receiverList) calls) = None
      \<longleftrightarrow> R info' \<le> acceptedCalls (Dealer_Init coins info' secret promiser receiverList) calls"
    using AddResponses_count[of "Dealer_Init coins info' secret promiser receiverList" calls]
      Dealer_Init_State[of coins info' secret promiser receiverList]
    by (simp add: Certified_def PromiseCertified_def)
  have b: "Certified d = None \<longrightarrow> Certified (AddResponses d further) = None"
    using AddResponses_count[of d further] acceptedCalls_nonneg[of d further]
    by (auto simp: Certified_def PromiseCertified_def split: if_splits)
  from a b show ?thesis by (rule conjI)
qed

text \<open>
  C9, at the instance, with \<open>R = 2\<close>: a valid response, its duplicate and an invalid
  response leave the dealer uncertified; a valid response, its duplicate and a second
  valid response certify it; a certified dealer stays certified after a duplicate and an
  out-of-range response.
\<close>

theorem Certified_threshold_monotone_witness:
  "Certified (AddResponses (Dealer_Init (\<lambda>k. 1) exInfo \<lparr>PublicKey = 1, PrivateKey = 1\<rparr> (exKey 100)
        [PublicKey (exKey 0), PublicKey (exKey 1), PublicKey (exKey 2)])
      [(0, \<lparr>validated = 1\<rparr>), (0, \<lparr>validated = 1\<rparr>), (1, \<lparr>validated = 9\<rparr>)])
     = Some CertificationShortfall \<and>
   Certified (AddResponses (Dealer_Init (\<lambda>k. 1) exInfo \<lparr>PublicKey = 1, PrivateKey = 1\<rparr> (exKey 100)
        [PublicKey (exKey 0), PublicKey (exKey 1), PublicKey (exKey 2)])
      [(0, \<lparr>validated = 1\<rparr>), (0, \<lparr>validated = 1\<rparr>), (1, \<lparr>validated = 2\<rparr>)])
     = None \<and>
   Certified (exCertified 1 1) = None \<and>
   Certified (AddResponses (exCertified 1 1) [(0, \<lparr>validated = 1\<rparr>), (7, \<lparr>validated = 0\<rparr>)]) = None"
proof -
  let ?d = "Dealer_Init (\<lambda>k. 1) exInfo \<lparr>PublicKey = 1, PrivateKey = 1\<rparr> (exKey 100)
        [PublicKey (exKey 0), PublicKey (exKey 1), PublicKey (exKey 2)]"
  have d: "?d = exDealer 1 1" by (simp add: exDealer_def NewDealer_def)
  have n1: "acceptedCalls ?d [(0, \<lparr>validated = 1\<rparr>), (0, \<lparr>validated = 1\<rparr>), (1, \<lparr>validated = 9\<rparr>)] = 1"
    unfolding d by (simp add: resp_defs)
  have n2: "acceptedCalls ?d [(0, \<lparr>validated = 1\<rparr>), (0, \<lparr>validated = 1\<rparr>), (1, \<lparr>validated = 2\<rparr>)] = 2"
    unfolding d by (simp add: resp_defs)
  have r: "R exInfo = 2" by (simp add: exInfo_def)
  have h: "Certified (exCertified 1 1) = None" by (simp add: resp_defs)
  have e1: "(Certified (AddResponses ?d [(0, \<lparr>validated = 1\<rparr>), (0, \<lparr>validated = 1\<rparr>), (1, \<lparr>validated = 9\<rparr>)]) = None)
      = (R exInfo \<le> acceptedCalls ?d [(0, \<lparr>validated = 1\<rparr>), (0, \<lparr>validated = 1\<rparr>), (1, \<lparr>validated = 9\<rparr>)])"
    using Certified_threshold_monotone[of "\<lambda>k. 1" exInfo "\<lparr>PublicKey = 1, PrivateKey = 1\<rparr>" "exKey 100"
      "[PublicKey (exKey 0), PublicKey (exKey 1), PublicKey (exKey 2)]"
      "[(0, \<lparr>validated = 1\<rparr>), (0, \<lparr>validated = 1\<rparr>), (1, \<lparr>validated = 9\<rparr>)]"]
    by (rule conjunct1)
  have c1: "Certified (AddResponses ?d [(0, \<lparr>validated = 1\<rparr>), (0, \<lparr>validated = 1\<rparr>), (1, \<lparr>validated = 9\<rparr>)])
     \<noteq> None"
    unfolding e1 n1 r by simp
  have c1': "Certified (AddResponses ?d [(0, \<lparr>validated = 1\<rparr>), (0, \<lparr>validated = 1\<rparr>), (1, \<lparr>validated = 9\<rparr>)])
     = Some CertificationShortfall"
    using c1 unfolding Certified_def PromiseCertified_def by (simp split: if_splits)
  have e2: "(Certified (AddResponses ?d [(0, \<lparr>validated = 1\<rparr>), (0, \<lparr>validated = 1\<rparr>), (1, \<lparr>validated = 2\<rparr>)]) = None)
      = (R exInfo \<le> acceptedCalls ?d [(0, \<lparr>validated = 1\<rparr>), (0, \<lparr>validated = 1\<rparr>), (1, \<lparr>validated = 2\<rparr>)])"
    using Certified_threshold_monotone[of "\<lambda>k. 1" exInfo "\<lparr>PublicKey = 1, PrivateKey = 1\<rparr>" "exKey 100"
      "[PublicKey (exKey 0), PublicKey (exKey 1), PublicKey (exKey 2)]"
      "[(0, \<lparr>validated = 1\<rparr>), (0, \<lparr>validated = 1\<rparr>), (1, \<lparr>validated = 2\<rparr>)]"]
    by (rule conjunct1)
  have c2: "Certified (AddResponses ?d [(0, \<lparr>validated = 1\<rparr>), (0, \<lparr>validated = 1\<rparr>), (1, \<lparr>validated = 2\<rparr>)])
     = None"
    unfolding e2 n2 r by simp
  from Certified_threshold_monotone[of _ _ _ _ _ _ "exCertified 1 1"
      "[(0, \<lparr>validated = 1\<rparr>), (7, \<lparr>validated = 0\<rparr>)]"] h
  have c3: "Certified (AddResponses (exCertified 1 1) [(0, \<lparr>validated = 1\<rparr>), (7, \<lparr>validated = 0\<rparr>)]) = None"
    by blast
  from c1' c2 h c3 show ?thesis by blast
qed

end
